theory Spec2Isabelle
  imports Main "HOL-Library.Word"
begin

unbundle bit_operations_syntax

section \<open>Constants of the host interface\<close>

text \<open>
  The error numbers come from the system's errno.h (Linux values); the handlers return
  them negated.  The file-type bits come from sys/stat.h.
\<close>

definition EPERM :: int where "EPERM = 1"
definition ENOENT :: int where "ENOENT = 2"
definition EIO :: int where "EIO = 5"
definition ENOMEM :: int where "ENOMEM = 12"

definition S_IFMT :: "32 word" where "S_IFMT = 0xF000"
definition S_IFREG :: "32 word" where "S_IFREG = 0x8000"

definition MAX_BUFFER_LEN :: nat where "MAX_BUFFER_LEN = 300 * 1024"

section \<open>Data model\<close>

type_synonym byte = "8 word"

text \<open>
  Modelled from the spec: \<open>struct buffer\<close> is declared in buffer.h, which is not part of
  the sources at hand.  The spec describes it as a growable contiguous byte region with an
  associated \<open>begin_offset\<close>.  The model keeps the \<open>len\<close> valid bytes of \<open>p\<close> as a list, so
  that the field \<open>len\<close> is the length of that list; the capacity is not modelled.
\<close>

record buffer =
  p :: "byte list"
  begin_offset :: int

definition len :: "buffer \<Rightarrow> nat" where
  "len b = length (p b)"

text \<open>
  Modelled from the spec: \<open>buf_init\<close>, \<open>buf_clear\<close> (sets \<open>len = 0\<close>) and \<open>buf_add_mem\<close>
  (append; may fail on allocation) live in buffer.c.
\<close>

definition buf_init :: buffer where
  "buf_init = \<lparr>p = [], begin_offset = 0\<rparr>"

definition buf_clear :: "buffer \<Rightarrow> buffer" where
  "buf_clear b = b\<lparr>p := []\<rparr>"

definition buf_add_mem :: "buffer \<Rightarrow> byte list \<Rightarrow> buffer" where
  "buf_add_mem b bs = b\<lparr>p := p b @ bs\<rparr>"

text \<open>
  \<open>struct ftpfs_file\<close>.  C flags of type int are booleans.  \<open>write_conn\<close> records whether
  the pointer is non-NULL.  \<open>addr\<close> is the address of the structure, which is what
  \<open>ftpfs.current_fh\<close> is compared with.  \<open>thread_running\<close> is a ghost field: whether
  a worker made by \<open>pthread_create\<close> serves the hand-off; it is cleared when the worker
  is joined or has ended its transfer without a failure (after a failed transfer the
  recorded cause decides, and the field is not read).  \<open>need_posted\<close> is a ghost field
  too: the worker has ended its transfer without a failure and has left one post on
  \<open>data_need\<close> behind.  The four semaphores and the error
  text buffer are not fields of the model: the worker is summarised by what the request
  thread observes at its synchronisation points.  \<open>isready\<close> and \<open>written_flag\<close> carry
  the assignments of the request thread only; the worker also writes them, and no handler
  reads them.
\<close>

record ftpfs_file =
  addr :: nat
  buf :: buffer
  dirty :: bool
  copied :: nat
  last_offset :: int
  can_shrink :: bool
  thread_running :: bool
  need_posted :: bool
  mode :: "32 word"
  open_path :: string
  full_path :: string
  stream_buf :: buffer
  write_conn :: bool
  isready :: bool
  eof :: bool
  written_flag :: bool
  write_fail_cause :: int
  write_may_start :: bool
  pos :: int

text \<open>Commands sent as post-quote, as the handlers build them.\<close>

datatype ftp_cmd = SITE_CHMOD nat string

text \<open>
  One request performed on the shared connection with the blocking
  \<open>curl_easy_perform\<close>: a listing of the directory of a path, the upload of an empty file
  to a path, or a list of quoted commands in the directory of a path.
\<close>

datatype request = List_dir string | Upload_empty string | Quote "ftp_cmd list" string

text \<open>
  Modelled from the spec: the process-wide \<open>struct ftpfs\<close> is declared in ftpfs.h, which
  is not part of the sources at hand; the spec lists the shared connection, the attachment
  flag, the current owner and the mutex.  The record holds what the handlers read and
  write: the owner of the download, the attachment flag, and the options of
  \<open>ftpfs.connection\<close> that they set (URL, RANGE, WRITEDATA as the address of the owning
  file, or None for a buffer local to a handler).  \<open>requests\<close> is a ghost field: the
  blocking requests performed so far, oldest first.  The mutex is not modelled: every
  handler holds it around its whole use of the connection.
\<close>

record ftpfs =
  current_fh :: "nat option"
  attached_to_multi :: bool
  conn_url :: "string option"
  conn_range :: "string option"
  conn_writedata :: "nat option"
  requests :: "request list"

section \<open>The environment: transfer library, remote server, worker thread\<close>

text \<open>
  What one call of \<open>curl_multi_perform\<close> did: whether it returned
  \<open>CURLM_CALL_MULTI_PERFORM\<close>, the number of running handles it reported, and the bytes it
  handed to the write callback \<open>read_data\<close> (which appends them to the buffer set as
  WRITEDATA).  When the append fails, the callback returns 0 and the library ends the
  transfer with an error: no bytes delivered, and a completion message that is not OK.
\<close>

record perform_result =
  call_again :: bool
  running :: nat
  delivered :: "byte list"

text \<open>A completion message of \<open>curl_multi_info_read\<close>.\<close>

record curl_msg =
  msg_done :: bool
  msg_result :: nat

datatype start_result = Thread_started | Init_failed | Create_failed

text \<open>
  Everything a handler call receives from outside, as data.  The path helpers belong to
  path_utils.  \<open>performs\<close>, \<open>selects\<close> and \<open>msgs\<close> script the successive answers of
  \<open>curl_multi_perform\<close>, \<open>select\<close> and \<open>curl_multi_info_read\<close> during one read;
  a script that ends before the loop does leaves the call without a result (None).
  \<open>create_res\<close> and \<open>cmd_res\<close> are the codes of the blocking transfers of
  \<open>create_empty_file\<close> and \<open>ftpfs_do_cmd\<close>; \<open>getattr_res\<close> is what the listing parser
  finds for the path (the size, or None when the entry is absent).  \<open>thread_start\<close>,
  \<open>alloc_ok\<close> and \<open>worker_res\<close> summarise the upload: the outcome of starting the worker,
  whether appending to the hand-off buffer succeeds, the code of the worker's transfer
  as far as the request thread observes it during this call (0 = no failure), and, for a
  transfer that failed, the number of bytes that the worker had taken out of the hand-off
  buffer before.
\<close>

record env =
  get_full_path :: "string \<Rightarrow> string"
  get_dir_path :: "string \<Rightarrow> string"
  get_file_name :: "string \<Rightarrow> string"
  check_running_resp :: perform_result
  performs :: "perform_result list"
  selects :: "int list"
  msgs :: "curl_msg list"
  create_res :: nat
  cmd_res :: nat
  getattr_res :: "nat option"
  thread_start :: start_result
  alloc_ok :: bool
  worker_res :: nat
  worker_taken :: nat

section \<open>Read engine\<close>

text \<open>
  \<open>cancel_previous_multi\<close>: detaches the shared connection from the non-blocking pump.
  When \<open>curl_multi_remove_handle\<close> or \<open>curl_multi_add_handle\<close> fails, or an option is
  refused (the macro \<open>curl_easy_setopt_or_die\<close> of ftpfs.h; the spec: "abort the
  process"), the process ends.  The model covers the runs in which the library accepts its
  configuration.
\<close>

definition cancel_previous_multi :: "ftpfs \<Rightarrow> ftpfs" where
  "cancel_previous_multi g = (if \<not> attached_to_multi g then g else g\<lparr>attached_to_multi := False\<rparr>)"

text \<open>The C format \<open>%lld\<close>: decimal digits, with a sign for negative numbers.\<close>

fun dec_nat :: "nat \<Rightarrow> string" where
  "dec_nat n = (if n < 10 then [''0123456789'' ! n] else dec_nat (n div 10) @ [''0123456789'' ! (n mod 10)])"

declare dec_nat.simps [simp del]

definition dec_lld :: "int \<Rightarrow> string" where
  "dec_lld i = (if i < 0 then CHR ''-'' # dec_nat (nat (- i)) else dec_nat (nat i))"

text \<open>\<open>snprintf(range, 15, "%lld-", offset)\<close>: at most 14 characters are kept.\<close>

definition range_string :: "int \<Rightarrow> string" where
  "range_string off = take 14 (dec_lld off @ ''-'')"

text \<open>
  The first test of \<open>ftpfs_read_chunk\<close>: "We can't answer this from cache".  Sizes are
  natural numbers and offsets integers here.
\<close>

definition cache_miss :: "ftpfs_file \<Rightarrow> nat \<Rightarrow> int \<Rightarrow> bool" where
  "cache_miss fh sz off \<longleftrightarrow>
     int (len (buf fh)) < int sz + off - begin_offset (buf fh) \<or>
     off < begin_offset (buf fh) \<or>
     off > begin_offset (buf fh) + int (len (buf fh))"

text \<open>
  The same test as the machine computes it.  The C expressions mix \<open>size_t\<close> and \<open>off_t\<close>,
  both 64 bits wide: \<open>size + offset - begin_offset\<close> and \<open>begin_offset + len\<close> are
  evaluated modulo \<open>2 ^ 64\<close>, and the third comparison converts the offset to an unsigned
  number; the second compares two signed numbers.  \<open>host_range\<close> holds for the calls that
  the host makes: offsets and sizes are not negative and stay below \<open>2 ^ 62\<close>.  In that
  range both readings agree (lemma \<open>cache_miss_u64_eq\<close> below); outside of it they differ,
  for instance at the size \<open>2 ^ 64 - 1\<close>.
\<close>

definition u64 :: "int \<Rightarrow> int" where
  "u64 x = x mod 2 ^ 64"

definition cache_miss_u64 :: "ftpfs_file \<Rightarrow> nat \<Rightarrow> int \<Rightarrow> bool" where
  "cache_miss_u64 fh sz off \<longleftrightarrow>
     int (len (buf fh)) < u64 (int sz + off - begin_offset (buf fh)) \<or>
     off < begin_offset (buf fh) \<or>
     u64 off > u64 (begin_offset (buf fh) + int (len (buf fh)))"

definition host_range :: "ftpfs_file \<Rightarrow> nat \<Rightarrow> int \<Rightarrow> bool" where
  "host_range fh sz off \<longleftrightarrow>
     0 \<le> begin_offset (buf fh) \<and> begin_offset (buf fh) < 2 ^ 62 \<and>
     int (len (buf fh)) < 2 ^ 62 \<and> int sz < 2 ^ 62 \<and> 0 \<le> off \<and> off < 2 ^ 62"

text \<open>The block "We need to restart the connection".\<close>

definition restart_transfer :: "ftpfs \<Rightarrow> ftpfs_file \<Rightarrow> string \<Rightarrow> int \<Rightarrow> ftpfs \<times> ftpfs_file" where
  "restart_transfer g fh path off =
     (let fh1 = fh\<lparr>buf := (buf_clear (buf fh))\<lparr>begin_offset := off\<rparr>\<rparr>;
          g1 = g\<lparr>current_fh := Some (addr fh)\<rparr>;
          g2 = cancel_previous_multi g1;
          g3 = g2\<lparr>conn_url := Some path, conn_writedata := Some (addr fh)\<rparr>;
          g4 = (if off \<noteq> 0 then g3\<lparr>conn_range := Some (range_string off)\<rparr> else g3)
      in (g4\<lparr>attached_to_multi := True\<rparr>, fh1))"

text \<open>
  The second test and the restart.  \<open>check_running\<close> is evaluated only when the three
  tests before it are false; it calls \<open>curl_multi_perform\<close> once, which may deliver bytes.
  The comparisons are the integer ones; in the range of the host they have the values that
  the code computes (lemma \<open>cache_miss_u64_eq\<close> below).
\<close>

definition read_chunk_prepare :: "env \<Rightarrow> ftpfs \<Rightarrow> ftpfs_file \<Rightarrow> string \<Rightarrow> int \<Rightarrow> ftpfs \<times> ftpfs_file" where
  "read_chunk_prepare e g fh path off =
     (if current_fh g \<noteq> Some (addr fh) \<or>
         off < begin_offset (buf fh) \<or>
         off > begin_offset (buf fh) + int (len (buf fh))
      then restart_transfer g fh path off
      else
        (let r = check_running_resp e;
             fh1 = fh\<lparr>buf := buf_add_mem (buf fh) (delivered r)\<rparr>
         in if running r = 0 then restart_transfer g fh1 path off else (g, fh1)))"

text \<open>
  \<open>while (CURLM_CALL_MULTI_PERFORM == curl_multi_perform(...));\<close> over the scripted
  answers: the running handles of the last call, the bytes of the buffer, the rest of the
  script.
\<close>

fun multi_perform_loop :: "perform_result list \<Rightarrow> byte list \<Rightarrow> (nat \<times> byte list \<times> perform_result list) option" where
  "multi_perform_loop [] bytes = None"
| "multi_perform_loop (r # rs) bytes =
     (if call_again r then multi_perform_loop rs (bytes @ delivered r)
      else Some (running r, bytes @ delivered r, rs))"

text \<open>
  The loop around \<open>select\<close>: as long as the window is too short for the request and
  handles are running.  The result is the error flag, the running handles and the bytes.
\<close>

fun select_loop :: "int list \<Rightarrow> perform_result list \<Rightarrow> nat \<Rightarrow> int \<Rightarrow> int \<Rightarrow> byte list \<Rightarrow> nat \<Rightarrow> (bool \<times> nat \<times> byte list) option" where
  "select_loop [] perfs sz off beg bytes run =
     (if int (length bytes) < int sz + off - beg \<and> run \<noteq> 0 then None
      else Some (False, run, bytes))"
| "select_loop (rc # rcs) perfs sz off beg bytes run =
     (if int (length bytes) < int sz + off - beg \<and> run \<noteq> 0 then
        (if rc = - 1 then Some (True, run, bytes)
         else
           (case multi_perform_loop perfs bytes of
              None \<Rightarrow> None
            | Some (run', bytes', perfs') \<Rightarrow> select_loop rcs perfs' sz off beg bytes' run'))
      else Some (False, run, bytes))"

text \<open>
  The loop over \<open>curl_multi_info_read\<close>: an empty queue yields a NULL message, which
  counts as an error; otherwise every queued message is checked.
\<close>

fun info_read_loop :: "curl_msg list \<Rightarrow> bool \<Rightarrow> bool" where
  "info_read_loop [] err = True"
| "info_read_loop (m # ms) err =
     (let err' = (err \<or> \<not> msg_done m \<or> msg_result m \<noteq> 0)
      in if ms = [] then err' else info_read_loop ms err')"

text \<open>
  The first half of \<open>ftpfs_read_chunk\<close>, up to the completion check: the state and the
  error flag with which the copy starts.
\<close>

definition read_chunk_fetch :: "env \<Rightarrow> ftpfs \<Rightarrow> ftpfs_file \<Rightarrow> string \<Rightarrow> nat \<Rightarrow> int \<Rightarrow> (ftpfs \<times> ftpfs_file \<times> bool) option" where
  "read_chunk_fetch e g fh path sz off =
     (if cache_miss fh sz off then
        (case read_chunk_prepare e g fh path off of (g1, fh1) \<Rightarrow>
           (case multi_perform_loop (performs e) (p (buf fh1)) of
              None \<Rightarrow> None
            | Some (run, bytes, perfs) \<Rightarrow>
                (case select_loop (selects e) perfs sz off (begin_offset (buf fh1)) bytes run of
                   None \<Rightarrow> None
                 | Some (err, run', bytes') \<Rightarrow>
                     Some (g1\<lparr>conn_range := None\<rparr>,
                           fh1\<lparr>buf := (buf fh1)\<lparr>p := bytes'\<rparr>\<rparr>,
                           if run' = 0 then info_read_loop (msgs e) err else err))))
      else Some (g, fh, False))"

text \<open>
  The second half: copy, position update and shrink.  \<open>rbuf\<close> tells whether the caller
  passed a buffer; the copied bytes are returned.  \<open>to_copy\<close> is never negative when the
  copy starts (lemma \<open>fetch_window\<close> below), so the conversion to a natural number loses
  nothing.
\<close>

definition read_chunk_serve :: "ftpfs_file \<Rightarrow> bool \<Rightarrow> nat \<Rightarrow> int \<Rightarrow> bool \<Rightarrow> ftpfs_file \<times> byte list option \<times> nat" where
  "read_chunk_serve fh rbuf sz off update_offset =
     (let to_copy = nat (int (len (buf fh)) + begin_offset (buf fh) - off);
          n = (if sz > to_copy then to_copy else sz);
          out = (if rbuf then Some (take n (drop (nat (off - begin_offset (buf fh))) (p (buf fh)))) else None);
          fh1 = (if update_offset then fh\<lparr>last_offset := off + int n\<rparr> else fh);
          fh2 = (if can_shrink fh1 \<and> len (buf fh1) > MAX_BUFFER_LEN then
                   fh1\<lparr>buf := \<lparr>p = take (to_copy - n) (drop (nat (off - begin_offset (buf fh1)) + n) (p (buf fh1))),
                               begin_offset = off + int n\<rparr>\<rparr>
                 else fh1)
      in (fh2, out, n))"

text \<open>
  Modelled from the spec: \<open>CURLFTPFS_BAD_READ\<close> is a macro of ftpfs.h; the spec calls the
  result of the read engine "bytes served or BadRead".
\<close>

datatype chunk_result = CURLFTPFS_BAD_READ | Served nat

definition ftpfs_read_chunk :: "env \<Rightarrow> ftpfs \<Rightarrow> ftpfs_file \<Rightarrow> string \<Rightarrow> bool \<Rightarrow> nat \<Rightarrow> int \<Rightarrow> bool \<Rightarrow> (ftpfs \<times> ftpfs_file \<times> byte list option \<times> chunk_result) option" where
  "ftpfs_read_chunk e g fh path rbuf sz off update_offset =
     (case read_chunk_fetch e g fh path sz off of
        None \<Rightarrow> None
      | Some (g1, fh1, err) \<Rightarrow>
          (case read_chunk_serve fh1 rbuf sz off update_offset of (fh2, out, n) \<Rightarrow>
             Some (g1, fh2, out, if err then CURLFTPFS_BAD_READ else Served n)))"

section \<open>Blocking requests on the shared connection\<close>

text \<open>\<open>op_return\<close> logs the outcome and returns the error it was given.\<close>

definition op_return :: "int \<Rightarrow> int" where
  "op_return err = (if err = 0 then 0 else err)"

text \<open>
  \<open>ftpfs_getattr\<close>: lists the directory of the path and lets the listing parser look the
  entry up.  \<open>Some s\<close> stands for the return value 0 with \<open>st_size = s\<close>, \<open>None\<close> for the
  return value \<open>-ENOENT\<close>.
\<close>

definition ftpfs_getattr :: "env \<Rightarrow> ftpfs \<Rightarrow> string \<Rightarrow> ftpfs \<times> nat option" where
  "ftpfs_getattr e g path =
     ((cancel_previous_multi g)\<lparr>conn_url := Some (get_dir_path e path), conn_writedata := None,
                                requests := requests g @ [List_dir path]\<rparr>,
      getattr_res e)"

definition test_size :: "env \<Rightarrow> ftpfs \<Rightarrow> string \<Rightarrow> ftpfs \<times> int" where
  "test_size e g path =
     (case ftpfs_getattr e g path of
        (g1, None) \<Rightarrow> (g1, op_return (- ENOENT))
      | (g1, Some st_size) \<Rightarrow> (g1, int st_size))"

definition create_empty_file :: "env \<Rightarrow> ftpfs \<Rightarrow> string \<Rightarrow> ftpfs \<times> int" where
  "create_empty_file e g path =
     ((cancel_previous_multi g)\<lparr>conn_url := Some (get_full_path e path),
                                requests := requests g @ [Upload_empty path]\<rparr>,
      if create_res e \<noteq> 0 then - EPERM else 0)"

definition ftpfs_do_cmd :: "env \<Rightarrow> ftpfs \<Rightarrow> ftp_cmd list \<Rightarrow> string \<Rightarrow> ftpfs \<times> int" where
  "ftpfs_do_cmd e g header path =
     ((cancel_previous_multi g)\<lparr>conn_url := Some (get_dir_path e path), conn_writedata := None,
                                requests := requests g @ [Quote header path]\<rparr>,
      if cmd_res e \<noteq> 0 then - EPERM else 0)"

definition ftpfs_chmod :: "env \<Rightarrow> ftpfs \<Rightarrow> string \<Rightarrow> 32 word \<Rightarrow> ftpfs \<times> int" where
  "ftpfs_chmod e g path m =
     (let filename = get_file_name e path;
          mode_c = m - (m div 0x1000 * 0x1000);
          cmd = SITE_CHMOD (unat mode_c) filename
      in case ftpfs_do_cmd e g [cmd] path of (g1, err) \<Rightarrow> (g1, op_return err))"

section \<open>Dispatcher: mknod, truncate, ftruncate, read\<close>

definition ftpfs_mknod :: "env \<Rightarrow> ftpfs \<Rightarrow> string \<Rightarrow> 32 word \<Rightarrow> ftpfs \<times> int" where
  "ftpfs_mknod e g path m =
     (if (m AND S_IFMT) \<noteq> S_IFREG then (g, - EPERM)
      else
        (case create_empty_file e g path of (g1, err) \<Rightarrow>
           (if err = 0 then fst (ftpfs_chmod e g1 path m) else g1, op_return err)))"

definition ftpfs_truncate :: "env \<Rightarrow> ftpfs \<Rightarrow> string \<Rightarrow> int \<Rightarrow> ftpfs \<times> int" where
  "ftpfs_truncate e g path off =
     (if off = 0 then
        (case create_empty_file e g path of (g1, err) \<Rightarrow> (g1, op_return err))
      else
        (case test_size e g path of (g1, sz) \<Rightarrow>
           if off = sz then (g1, op_return 0) else (g1, op_return (- EPERM))))"

definition ftpfs_ftruncate :: "env \<Rightarrow> ftpfs \<Rightarrow> ftpfs_file \<Rightarrow> string \<Rightarrow> int \<Rightarrow> ftpfs \<times> ftpfs_file \<times> int" where
  "ftpfs_ftruncate e g fh path off =
     (if off = 0 then
        (if pos fh = 0 then
           (case create_empty_file e g (open_path fh) of (g1, err) \<Rightarrow>
              (g1, fh\<lparr>write_may_start := True\<rparr>, op_return err))
         else (g, fh, op_return (- EPERM)))
      else
        (case test_size e g path of (g1, sz) \<Rightarrow>
           if off = sz then (g1, fh, op_return 0) else (g1, fh, op_return (- EPERM))))"

text \<open>
  \<open>ftpfs_read\<close>.  The result carries the bytes copied to the caller's buffer besides the
  return value.  The conversion of the served size to int is the identity for every
  size the host passes.
\<close>

definition ftpfs_read :: "env \<Rightarrow> ftpfs \<Rightarrow> ftpfs_file \<Rightarrow> string \<Rightarrow> bool \<Rightarrow> nat \<Rightarrow> int \<Rightarrow> (ftpfs \<times> ftpfs_file \<times> byte list option \<times> int) option" where
  "ftpfs_read e g fh path rbuf sz off =
     (if pos fh > 0 \<or> write_conn fh then Some (g, fh, None, op_return (- EIO))
      else
        (case ftpfs_read_chunk e g fh (get_full_path e path) rbuf sz off True of
           None \<Rightarrow> None
         | Some (g1, fh1, out, r) \<Rightarrow>
             Some (g1, fh1, out,
                   case r of CURLFTPFS_BAD_READ \<Rightarrow> op_return (- EIO) | Served n \<Rightarrow> int n)))"

section \<open>Write pipeline, seen from the request thread\<close>

text \<open>
  A handler call returns, or waits for ever on a semaphore that nobody posts, or ends the
  process through \<open>exit(1)\<close>.
\<close>

datatype 'a outcome = Returns 'a | Blocks | Exits

text \<open>
  \<open>start_write_thread\<close>: returns 1 on success, 0 on failure.  The semaphores start at
  0.  When \<open>pthread_create\<close> fails, \<open>write_conn\<close> stays set although no worker exists.
\<close>

definition start_write_thread :: "env \<Rightarrow> ftpfs_file \<Rightarrow> (ftpfs_file \<times> int) outcome" where
  "start_write_thread e fh =
     (if write_conn fh then Exits
      else
        (let fh1 = fh\<lparr>written_flag := False, isready := False, eof := False,
                      need_posted := False\<rparr>
         in case thread_start e of
              Init_failed \<Rightarrow> Returns (fh1\<lparr>write_conn := False\<rparr>, 0)
            | Create_failed \<Rightarrow> Returns (fh1\<lparr>write_conn := True\<rparr>, 0)
            | Thread_started \<Rightarrow> Returns (fh1\<lparr>write_conn := True, thread_running := True\<rparr>, 1)))"

text \<open>
  \<open>finish_write_thread\<close>: waits for \<open>data_need\<close> when no failure is recorded, signals the
  end of the data, joins the worker and releases the upload connection.  The wait never
  ends when there is neither a worker nor a post left behind.  After the join the
  worker's assignment to \<open>write_fail_cause\<close> (made when its transfer failed) is visible:
  \<open>cause_after_worker\<close> is the value that the request thread then reads.
\<close>

definition cause_after_worker :: "env \<Rightarrow> ftpfs_file \<Rightarrow> int" where
  "cause_after_worker e fh = (if worker_res e \<noteq> 0 then int (worker_res e) else write_fail_cause fh)"

definition finish_write_thread :: "env \<Rightarrow> ftpfs_file \<Rightarrow> (ftpfs_file \<times> int) outcome" where
  "finish_write_thread e fh =
     (if write_fail_cause fh = 0 \<and> \<not> thread_running fh \<and> \<not> need_posted fh then Blocks
      else
        (let cause = cause_after_worker e fh;
             fh1 = fh\<lparr>eof := True, write_conn := False, thread_running := False,
                      write_fail_cause := cause\<rparr>
         in Returns (fh1, if cause \<noteq> 0 then - EIO else 0)))"

text \<open>
  \<open>ftpfs_write\<close> in its four parts.  The first two start the worker; \<open>Inl\<close> is a result
  with which the handler ends, \<open>Inr\<close> the state with which it goes on.
\<close>

definition write_start_first :: "env \<Rightarrow> ftpfs \<Rightarrow> ftpfs_file \<Rightarrow> string \<Rightarrow> int \<Rightarrow> (ftpfs \<times> ftpfs_file \<times> int) outcome + ftpfs \<times> ftpfs_file" where
  "write_start_first e g fh path off =
     (if \<not> write_conn fh \<and> pos fh = 0 \<and> off = 0 then
        (if \<not> write_may_start fh \<and> snd (test_size e g path) \<noteq> 0
         then Inl (Returns (fst (test_size e g path), fh, op_return (- EIO)))
         else
           (let g1 = (if \<not> write_may_start fh then fst (test_size e g path) else g)
            in case start_write_thread e fh of
                 Exits \<Rightarrow> Inl Exits
               | Blocks \<Rightarrow> Inl Blocks
               | Returns (fh1, success) \<Rightarrow>
                   if success = 0 then Inl (Returns (g1, fh1, op_return (- EIO)))
                   else Inr (g1, fh1)))
      else Inr (g, fh))"

definition write_resume :: "env \<Rightarrow> ftpfs \<Rightarrow> ftpfs_file \<Rightarrow> int \<Rightarrow> (ftpfs \<times> ftpfs_file \<times> int) outcome + ftpfs \<times> ftpfs_file" where
  "write_resume e g fh off =
     (if \<not> write_conn fh \<and> pos fh > 0 \<and> off = pos fh then
        (case start_write_thread e fh of
           Exits \<Rightarrow> Inl Exits
         | Blocks \<Rightarrow> Inl Blocks
         | Returns (fh1, success) \<Rightarrow>
             if success = 0 then Inl (Returns (g, fh1, op_return (- EIO)))
             else Inr (g, fh1))
      else Inr (g, fh))"

text \<open>
  The part under \<open>if (fh->write_conn)\<close>, and the final \<open>return size\<close>.

  The wait for \<open>data_need\<close> never ends when there is neither a worker nor a post left
  behind.  With a post left behind by a worker that has ended, the wait returns; then a
  failed append gives the post back and returns, while a non-sequential write blocks in
  \<open>finish_write_thread\<close> (the post is used up) and a hand-off blocks in the wait for
  \<open>data_written\<close>.

  After a hand-off to a running worker, the worker has taken all bytes out of
  \<open>stream_buf\<close>, or it has failed, recorded the cause and left the bytes it had not taken.
  A hand-off of no bytes makes the read callback \<open>write_data_bg\<close> return 0, which ends
  the transfer: the worker posts \<open>data_need\<close> and \<open>data_written\<close> and is gone, so the call
  returns 0 and leaves \<open>write_conn\<close> set without a worker.
\<close>

definition write_stream :: "env \<Rightarrow> ftpfs \<Rightarrow> ftpfs_file \<Rightarrow> byte list \<Rightarrow> int \<Rightarrow> (ftpfs \<times> ftpfs_file \<times> int) outcome" where
  "write_stream e g fh wbuf off =
     (if write_conn fh then
        (if \<not> thread_running fh \<and> \<not> need_posted fh then Blocks
         else if off \<noteq> pos fh then
           (if \<not> thread_running fh then Blocks
            else
              (case finish_write_thread e fh of
                 Returns (fh1, r) \<Rightarrow> Returns (g, fh1, op_return (- EIO))
               | Blocks \<Rightarrow> Blocks
               | Exits \<Rightarrow> Exits))
         else if \<not> alloc_ok e then Returns (g, fh, op_return (- ENOMEM))
         else if \<not> thread_running fh then Blocks
         else
           (let cause = cause_after_worker e fh;
                ended = (wbuf = [] \<and> worker_res e = 0);
                fh1 = fh\<lparr>stream_buf := (if worker_res e \<noteq> 0
                                         then (stream_buf fh)\<lparr>p := drop (worker_taken e) (p (stream_buf fh) @ wbuf)\<rparr>
                                         else (stream_buf fh)\<lparr>p := []\<rparr>),
                         pos := pos fh + int (length wbuf),
                         written_flag := False,
                         write_fail_cause := cause,
                         thread_running := \<not> ended,
                         need_posted := ended\<rparr>
            in if cause \<noteq> 0 then Returns (g, fh1, op_return (- EIO))
               else Returns (g, fh1, int (length wbuf))))
      else Returns (g, fh, int (length wbuf)))"

text \<open>
  \<open>ftpfs_write\<close>.  \<open>wbuf\<close> holds the \<open>size\<close> bytes of the call.  The conversion of
  \<open>size\<close> to the int result is the identity for every size the host passes.
\<close>

definition ftpfs_write :: "env \<Rightarrow> ftpfs \<Rightarrow> ftpfs_file \<Rightarrow> string \<Rightarrow> byte list \<Rightarrow> int \<Rightarrow> (ftpfs \<times> ftpfs_file \<times> int) outcome" where
  "ftpfs_write e g fh path wbuf off =
     (if write_fail_cause fh \<noteq> 0 then Returns (g, fh, - EIO)
      else
        (case write_start_first e g fh path off of
           Inl r \<Rightarrow> r
         | Inr (g1, fh1) \<Rightarrow>
             (case write_resume e g1 fh1 off of
                Inl r \<Rightarrow> r
              | Inr (g2, fh2) \<Rightarrow> write_stream e g2 fh2 wbuf off)))"

text \<open>The value that \<open>ftpfs_flush\<close> stores when the remote size is not \<open>pos\<close>.\<close>

definition flush_size_mismatch :: int where
  "flush_size_mismatch = - 999"

definition ftpfs_flush :: "env \<Rightarrow> ftpfs \<Rightarrow> ftpfs_file \<Rightarrow> string \<Rightarrow> (ftpfs \<times> ftpfs_file \<times> int) outcome" where
  "ftpfs_flush e g fh path =
     (if write_conn fh then
        (case finish_write_thread e fh of
           Blocks \<Rightarrow> Blocks
         | Exits \<Rightarrow> Exits
         | Returns (fh1, err) \<Rightarrow>
             if err \<noteq> 0 then Returns (g, fh1, op_return err)
             else
               (case ftpfs_getattr e g path of
                  (g1, None) \<Rightarrow> Returns (g1, fh1, op_return (- ENOENT))
                | (g1, Some st_size) \<Rightarrow>
                    if int st_size \<noteq> pos fh1
                    then Returns (g1, fh1\<lparr>write_fail_cause := flush_size_mismatch\<rparr>, op_return (- EIO))
                    else Returns (g1, fh1, 0)))
      else if \<not> dirty fh then Returns (g, fh, 0)
      else Returns (g, fh, op_return (- EIO)))"

section \<open>Runs of write calls\<close>

text \<open>A write call: its environment, path, bytes and offset.\<close>

type_synonym write_call = "env \<times> string \<times> byte list \<times> int"

fun write_run :: "ftpfs \<Rightarrow> ftpfs_file \<Rightarrow> write_call list \<Rightarrow> (ftpfs \<times> ftpfs_file \<times> int list) outcome" where
  "write_run g fh [] = Returns (g, fh, [])"
| "write_run g fh ((e, path, wbuf, off) # cs) =
     (case ftpfs_write e g fh path wbuf off of
        Returns (g1, fh1, r) \<Rightarrow>
          (case write_run g1 fh1 cs of
             Returns (g2, fh2, rs) \<Rightarrow> Returns (g2, fh2, r # rs)
           | Blocks \<Rightarrow> Blocks
           | Exits \<Rightarrow> Exits)
      | Blocks \<Rightarrow> Blocks
      | Exits \<Rightarrow> Exits)"



text \<open>
  A stray write is a call on a healthy handle with no upload connection whose offset is not
  \<open>pos\<close>: \<open>ftpfs_write\<close> passes all its tests and returns the size without handing any byte
  over.  \<open>no_stray_write\<close> holds for a run without such a call.
\<close>

definition stray_write :: "ftpfs_file \<Rightarrow> int \<Rightarrow> bool" where
  "stray_write fh off \<longleftrightarrow> write_fail_cause fh = 0 \<and> \<not> write_conn fh \<and> off \<noteq> pos fh"


section \<open>The window and the remote file\<close>

text \<open>
  The window invariant of the specification: the buffer holds exactly the bytes
  \<open>[begin_offset, begin_offset + len)\<close> of the remote file.  \<open>window_bytes\<close> is what the
  copy step reads from a buffer for a request.
\<close>

definition window_ok :: "byte list \<Rightarrow> buffer \<Rightarrow> bool" where
  "window_ok remote b \<longleftrightarrow>
     0 \<le> begin_offset b \<and> nat (begin_offset b) + len b \<le> length remote \<and>
     p b = take (len b) (drop (nat (begin_offset b)) remote)"

definition window_bytes :: "buffer \<Rightarrow> int \<Rightarrow> nat \<Rightarrow> byte list" where
  "window_bytes b off n = take n (drop (nat (off - begin_offset b)) (p b))"

section \<open>Initial states\<close>

text \<open>
  The handle as \<open>ftpfs_open_common\<close> sets it up before it looks at the flags, the
  connection state at start-up, and an environment in which nothing fails and nothing
  arrives.
\<close>

definition new_file :: "nat \<Rightarrow> env \<Rightarrow> string \<Rightarrow> 32 word \<Rightarrow> ftpfs_file" where
  "new_file a e path m =
     \<lparr>addr = a, buf = buf_init, dirty = False, copied = 0, last_offset = 0, can_shrink = False,
      thread_running = False, need_posted = False, mode = m, open_path = path, full_path = get_full_path e path,
      stream_buf = buf_init, write_conn = False, isready = False, eof = False,
      written_flag = False, write_fail_cause = 0, write_may_start = False, pos = 0\<rparr>"

definition ftpfs_init :: ftpfs where
  "ftpfs_init = \<lparr>current_fh = None, attached_to_multi = False, conn_url = None,
                 conn_range = None, conn_writedata = None, requests = []\<rparr>"

definition quiet_env :: env where
  "quiet_env =
     \<lparr>get_full_path = (\<lambda>s. ''ftp://host'' @ s), get_dir_path = (\<lambda>s. ''ftp://host/''),
      get_file_name = (\<lambda>s. s),
      check_running_resp = \<lparr>call_again = False, running = 0, delivered = []\<rparr>,
      performs = [], selects = [], msgs = [],
      create_res = 0, cmd_res = 0, getattr_res = None,
      thread_start = Thread_started, alloc_ok = True, worker_res = 0, worker_taken = 0\<rparr>"

section \<open>Sample states and environments\<close>

text \<open>
  A download that arrives in two pieces: the first pass of the pump delivers two bytes and
  leaves the transfer running, the pass after \<open>select\<close> delivers two more and ends it
  with a clean completion message.
\<close>

definition pump_env :: env where
  "pump_env = quiet_env\<lparr>performs := [\<lparr>call_again = False, running = 1, delivered = [10, 20]\<rparr>,
                                      \<lparr>call_again = False, running = 0, delivered = [30, 40]\<rparr>],
                         selects := [1], msgs := [\<lparr>msg_done = True, msg_result = 0\<rparr>]\<rparr>"

text \<open>
  A read-only handle whose window holds the first 307210 bytes of a remote file of 400000
  bytes: more than the soft cap.
\<close>

definition big_remote :: "byte list" where
  "big_remote = replicate 15 1 @ replicate 399985 2"

definition big_file :: ftpfs_file where
  "big_file = (new_file 1 quiet_env ''/f'' 0)\<lparr>can_shrink := True,
      buf := \<lparr>p = replicate 15 1 @ replicate 307195 2, begin_offset = 0\<rparr>\<rparr>"

text \<open>
  A handle whose window holds the bytes 100 to 107 of its file, while the shared connection
  was last used by another handle.
\<close>

definition other_owner :: ftpfs where
  "other_owner = ftpfs_init\<lparr>current_fh := Some 2\<rparr>"

definition cached_file :: ftpfs_file where
  "cached_file = (new_file 1 quiet_env ''/f'' 0)\<lparr>buf := \<lparr>p = [1, 2, 3, 4, 5, 6, 7, 8], begin_offset = 100\<rparr>\<rparr>"

text \<open>
  A handle with an upload in progress that has handed five bytes over, and the two write
  calls used below: one at offset 2, one at offset 5.
\<close>

definition uploading_file :: ftpfs_file where
  "uploading_file = (new_file 1 quiet_env ''/f'' 0)\<lparr>write_conn := True, thread_running := True,
      write_may_start := True, pos := 5\<rparr>"

text \<open>
  A handle as it is after an open with create: the worker runs and nothing has been written.
\<close>

definition created_file :: ftpfs_file where
  "created_file = (new_file 1 quiet_env ''/f'' 0)\<lparr>write_conn := True, thread_running := True,
      write_may_start := True\<rparr>"


definition two_writes :: "write_call list" where
  "two_writes = [(quiet_env, ''/f'', [9], 2), (quiet_env, ''/f'', [1, 2], 5)]"

section \<open>Properties of the read engine\<close>

text \<open>The pump only appends to the window.\<close>

lemma multi_perform_loop_grows:
  "multi_perform_loop rs bytes = Some (run, bytes', rs') \<Longrightarrow> length bytes \<le> length bytes'"
  by (induction rs arbitrary: bytes) (force split: if_splits)+

lemma select_loop_grows:
  "select_loop rcs perfs sz off beg bytes run = Some (err, run', bytes') \<Longrightarrow> length bytes \<le> length bytes'"
proof (induction rcs arbitrary: perfs bytes run)
  case Nil
  then show ?case by (auto split: if_splits)
next
  case (Cons rc rcs)
  show ?case
  proof (cases "int (length bytes) < int sz + off - beg \<and> run \<noteq> 0")
    case False
    with Cons.prems show ?thesis by auto
  next
    case True
    note T = True
    show ?thesis
    proof (cases "rc = - 1")
      case True
      with T Cons.prems show ?thesis by auto
    next
      case False
      with T Cons.prems obtain r1 b1 p1 where
        m: "multi_perform_loop perfs bytes = Some (r1, b1, p1)" and
        s: "select_loop rcs p1 sz off beg b1 r1 = Some (err, run', bytes')"
        by (auto split: option.splits)
      from multi_perform_loop_grows [OF m] Cons.IH [OF s] show ?thesis by simp
    qed
  qed
qed

text \<open>
  When the copy starts, the requested offset lies inside the window or at its end, on
  every path through the first half.  So the count \<open>len + begin_offset - offset\<close> of the
  copy step is never negative.
\<close>

lemma prepare_window:
  "read_chunk_prepare e g fh path off = (g1, fh1) \<Longrightarrow>
   begin_offset (buf fh1) \<le> off \<and> off \<le> begin_offset (buf fh1) + int (len (buf fh1))"
  by (auto simp: read_chunk_prepare_def restart_transfer_def Let_def buf_clear_def buf_add_mem_def len_def
      split: if_splits)

lemma fetch_window:
  assumes "read_chunk_fetch e g fh path sz off = Some (g1, fh1, err)"
  shows "begin_offset (buf fh1) \<le> off \<and> off \<le> begin_offset (buf fh1) + int (len (buf fh1))"
proof (cases "cache_miss fh sz off")
  case False
  with assms show ?thesis by (auto simp: read_chunk_fetch_def cache_miss_def)
next
  case True
  obtain ga fa where pr: "read_chunk_prepare e g fh path off = (ga, fa)" by (cases "read_chunk_prepare e g fh path off")
  from assms True pr obtain r1 b1 p1 e2 r2 b2 where
    m: "multi_perform_loop (performs e) (p (buf fa)) = Some (r1, b1, p1)" and
    s: "select_loop (selects e) p1 sz off (begin_offset (buf fa)) b1 r1 = Some (e2, r2, b2)" and
    f: "fh1 = fa\<lparr>buf := (buf fa)\<lparr>p := b2\<rparr>\<rparr>"
    by (auto simp: read_chunk_fetch_def split: option.splits)
  from prepare_window [OF pr] multi_perform_loop_grows [OF m] select_loop_grows [OF s] f
  show ?thesis by (simp add: len_def)
qed

lemma serve_count:
  "snd (snd (read_chunk_serve fh rbuf sz off upd)) =
     min sz (nat (int (len (buf fh)) + begin_offset (buf fh) - off))"
  by (simp add: read_chunk_serve_def Let_def min_def)

lemma serve_out:
  "fst (snd (read_chunk_serve fh rbuf sz off upd)) =
     (if rbuf then Some (window_bytes (buf fh) off (min sz (nat (int (len (buf fh)) + begin_offset (buf fh) - off))))
      else None)"
  by (simp add: read_chunk_serve_def Let_def min_def window_bytes_def)

lemma serve_last_offset:
  "last_offset (fst (read_chunk_serve fh rbuf sz off upd)) =
     (if upd then off + int (min sz (nat (int (len (buf fh)) + begin_offset (buf fh) - off)))
      else last_offset fh)"
  by (simp add: read_chunk_serve_def Let_def min_def)

lemma pump_run:
  "ftpfs_read_chunk pump_env ftpfs_init (new_file 1 quiet_env ''/f'' 0) ''ftp://host/f'' True 3 0 True
   = Some (ftpfs_init\<lparr>current_fh := Some 1, attached_to_multi := True, conn_url := Some ''ftp://host/f'', conn_writedata := Some 1\<rparr>,
       (new_file 1 quiet_env ''/f'' 0)\<lparr>buf := \<lparr>p = [10, 20, 30, 40], begin_offset = 0\<rparr>, last_offset := 3\<rparr>,
       Some [10, 20, 30], Served 3)"
  by (simp add: ftpfs_read_chunk_def read_chunk_fetch_def read_chunk_serve_def cache_miss_def
      read_chunk_prepare_def restart_transfer_def cancel_previous_multi_def pump_env_def quiet_env_def
      new_file_def ftpfs_init_def buf_init_def buf_clear_def buf_add_mem_def len_def MAX_BUFFER_LEN_def Let_def)

text \<open>
  Claim C5.  Every successful call of \<open>ftpfs_read_chunk\<close> serves the minimum of the
  requested size and the number of bytes that the window, as the pump left it, holds from
  the requested offset on (\<open>begin_offset + len - offset\<close>, which is not negative); the bytes
  handed to the caller are those of the window from index \<open>offset - begin_offset\<close>; and
  with \<open>update_offset\<close> set, \<open>last_offset\<close> becomes the offset plus the served count.
\<close>

theorem read_chunk_serves_window:
  assumes "ftpfs_read_chunk e g fh path rbuf sz off upd = Some (g2, fh2, out, Served n)"
  shows "\<exists>fh1. read_chunk_fetch e g fh path sz off = Some (g2, fh1, False) \<and>
           begin_offset (buf fh1) \<le> off \<and> off \<le> begin_offset (buf fh1) + int (len (buf fh1)) \<and>
           n = min sz (nat (int (len (buf fh1)) + begin_offset (buf fh1) - off)) \<and>
           out = (if rbuf then Some (take n (drop (nat (off - begin_offset (buf fh1))) (p (buf fh1)))) else None) \<and>
           last_offset fh2 = (if upd then off + int n else last_offset fh1)"
proof -
  from assms obtain g1 fh1 err where
    f: "read_chunk_fetch e g fh path sz off = Some (g1, fh1, err)"
    by (auto simp: ftpfs_read_chunk_def split: option.splits)
  obtain fa oa na where s: "read_chunk_serve fh1 rbuf sz off upd = (fa, oa, na)"
    by (cases "read_chunk_serve fh1 rbuf sz off upd")
  from assms f s have r: "g2 = g1" "fh2 = fa" "out = oa" "n = na" "\<not> err"
    by (auto simp: ftpfs_read_chunk_def split: if_splits)
  from serve_count [of fh1 rbuf sz off upd] s r
  have n: "n = min sz (nat (int (len (buf fh1)) + begin_offset (buf fh1) - off))" by simp
  from serve_out [of fh1 rbuf sz off upd] s r n
  have o: "out = (if rbuf then Some (take n (drop (nat (off - begin_offset (buf fh1))) (p (buf fh1)))) else None)"
    by (simp add: window_bytes_def)
  from serve_last_offset [of fh1 rbuf sz off upd] s r n
  have l: "last_offset fh2 = (if upd then off + int n else last_offset fh1)" by simp
  from f r have f': "read_chunk_fetch e g fh path sz off = Some (g2, fh1, False)" by simp
  from f' fetch_window [OF f] n o l show ?thesis by (intro exI [of _ fh1] conjI) simp_all
qed

theorem read_chunk_serves_window_witness:
  "ftpfs_read_chunk pump_env ftpfs_init (new_file 1 quiet_env ''/f'' 0) ''ftp://host/f'' True 3 0 True
     = Some (ftpfs_init\<lparr>current_fh := Some 1, attached_to_multi := True, conn_url := Some ''ftp://host/f'', conn_writedata := Some 1\<rparr>,
         (new_file 1 quiet_env ''/f'' 0)\<lparr>buf := \<lparr>p = [10, 20, 30, 40], begin_offset = 0\<rparr>, last_offset := 3\<rparr>,
         Some [10, 20, 30], Served 3) \<and>
   (\<exists>fh1. read_chunk_fetch pump_env ftpfs_init (new_file 1 quiet_env ''/f'' 0) ''ftp://host/f'' 3 0
            = Some (ftpfs_init\<lparr>current_fh := Some 1, attached_to_multi := True, conn_url := Some ''ftp://host/f'', conn_writedata := Some 1\<rparr>, fh1, False) \<and>
          begin_offset (buf fh1) \<le> 0 \<and> 0 \<le> begin_offset (buf fh1) + int (len (buf fh1)) \<and>
          3 = min 3 (nat (int (len (buf fh1)) + begin_offset (buf fh1) - 0)) \<and>
          Some [10, 20, 30] = (if True then Some (take 3 (drop (nat (0 - begin_offset (buf fh1))) (p (buf fh1)))) else None) \<and>
          last_offset ((new_file 1 quiet_env ''/f'' 0)\<lparr>buf := \<lparr>p = [10, 20, 30, 40], begin_offset = 0\<rparr>, last_offset := 3\<rparr>) = (if True then 0 + int 3 else last_offset fh1))"
  by (rule conjI [OF pump_run read_chunk_serves_window [OF pump_run]])

lemma serve_shrunk_buf:
  assumes "can_shrink fh" and "MAX_BUFFER_LEN < len (buf fh)"
    and "begin_offset (buf fh) \<le> off" and "off \<le> begin_offset (buf fh) + int (len (buf fh))"
  shows "buf (fst (read_chunk_serve fh rbuf sz off upd)) =
           \<lparr>p = drop (nat (off - begin_offset (buf fh)) + min sz (nat (int (len (buf fh)) + begin_offset (buf fh) - off))) (p (buf fh)),
            begin_offset = off + int (min sz (nat (int (len (buf fh)) + begin_offset (buf fh) - off)))\<rparr>"
proof -
  define k where "k = nat (off - begin_offset (buf fh))"
  define t where "t = nat (int (len (buf fh)) + begin_offset (buf fh) - off)"
  define n where "n = (if t < sz then t else sz)"
  have t: "t = length (p (buf fh)) - k" using assms(3,4) by (simp add: t_def k_def len_def)
  have m: "min sz t = n" by (simp add: min_def n_def)
  have tk: "take (t - n) (drop (k + n) (p (buf fh))) = drop (k + n) (p (buf fh))"
    using t by simp
  have "buf (fst (read_chunk_serve fh rbuf sz off upd)) =
          \<lparr>p = take (t - n) (drop (k + n) (p (buf fh))), begin_offset = off + int n\<rparr>"
    using assms(1,2) by (simp add: read_chunk_serve_def Let_def k_def t_def n_def)
  with tk m show ?thesis by (simp add: k_def t_def)
qed

lemma window_ok_drop:
  assumes "window_ok remote b" and "k \<le> len b"
  shows "window_ok remote \<lparr>p = drop k (p b), begin_offset = begin_offset b + int k\<rparr>"
proof -
  from assms(1) have b: "0 \<le> begin_offset b" and l: "nat (begin_offset b) + len b \<le> length remote"
    and c: "p b = take (len b) (drop (nat (begin_offset b)) remote)"
    by (simp_all add: window_ok_def)
  have n: "nat (begin_offset b + int k) = nat (begin_offset b) + k" using b by linarith
  have "drop k (p b) = drop k (take (len b) (drop (nat (begin_offset b)) remote))" using c by simp
  also have "\<dots> = take (len b - k) (drop (nat (begin_offset b) + k) remote)"
    by (simp add: drop_take add.commute)
  finally have d: "drop k (p b) = take (len b - k) (drop (nat (begin_offset b) + k) remote)" .
  have lk: "length (drop k (p b)) = len b - k" by (simp add: len_def)
  show ?thesis
    unfolding window_ok_def using b l assms(2) n d lk by (simp add: len_def)
qed

lemma big_fetch:
  "read_chunk_fetch quiet_env ftpfs_init big_file ''ftp://host/f'' 10 5 = Some (ftpfs_init, big_file, False)"
  by (simp add: read_chunk_fetch_def cache_miss_def big_file_def len_def)

lemma big_run:
  "ftpfs_read_chunk quiet_env ftpfs_init big_file ''ftp://host/f'' True 10 5 True =
     Some (ftpfs_init, big_file\<lparr>last_offset := 15, buf := \<lparr>p = replicate 307195 2, begin_offset = 15\<rparr>\<rparr>,
           Some (replicate 10 1), Served 10)"
  unfolding ftpfs_read_chunk_def big_fetch
  by (simp add: read_chunk_serve_def big_file_def len_def MAX_BUFFER_LEN_def Let_def new_file_def)

text \<open>
  Claim C4.  When the handle may shrink and the window, as the pump left it, is longer than
  the soft cap of 300 KiB, \<open>ftpfs_read_chunk\<close> moves the bytes after \<open>offset + served\<close>
  to the front of the buffer, sets \<open>begin_offset\<close> to \<open>offset + served\<close> and \<open>len\<close> to the
  length of that tail.  If the window held exactly the bytes
  \<open>[begin_offset, begin_offset + len)\<close> of the remote file before, it does so afterwards, and
  what the copy step reads for any offset from the new \<open>begin_offset\<close> on is unchanged.
\<close>

theorem shrink_keeps_window:
  assumes "read_chunk_fetch e g fh path sz off = Some (g1, fh1, err)"
    and "ftpfs_read_chunk e g fh path rbuf sz off upd = Some (g2, fh2, out, r)"
    and "can_shrink fh1" and "MAX_BUFFER_LEN < len (buf fh1)"
  shows "begin_offset (buf fh1) \<le> off \<and> off \<le> begin_offset (buf fh1) + int (len (buf fh1)) \<and>
         p (buf fh2) = drop (nat (off - begin_offset (buf fh1)) + min sz (nat (int (len (buf fh1)) + begin_offset (buf fh1) - off))) (p (buf fh1)) \<and>
         begin_offset (buf fh2) = off + int (min sz (nat (int (len (buf fh1)) + begin_offset (buf fh1) - off))) \<and>
         int (len (buf fh2)) = begin_offset (buf fh1) + int (len (buf fh1)) - begin_offset (buf fh2) \<and>
         (window_ok remote (buf fh1) \<longrightarrow> window_ok remote (buf fh2)) \<and>
         (\<forall>off2 n2. begin_offset (buf fh2) \<le> off2 \<longrightarrow>
            window_bytes (buf fh2) off2 n2 = window_bytes (buf fh1) off2 n2)"
proof -
  define b where "b = begin_offset (buf fh1)"
  define served where "served = min sz (nat (int (len (buf fh1)) + b - off))"
  define k where "k = nat (off - b) + served"
  from fetch_window [OF assms(1)] have w: "b \<le> off" "off \<le> b + int (len (buf fh1))"
    by (simp_all add: b_def)
  from assms(1,2) have fh2: "fh2 = fst (read_chunk_serve fh1 rbuf sz off upd)"
    by (simp add: ftpfs_read_chunk_def split: prod.splits)
  have k: "k \<le> len (buf fh1)" unfolding k_def served_def using w by linarith
  have bk: "off + int served = b + int k" unfolding k_def using w by linarith
  from serve_shrunk_buf [OF assms(3,4), of off rbuf sz upd] w fh2
  have "buf fh2 = \<lparr>p = drop k (p (buf fh1)), begin_offset = off + int served\<rparr>"
    by (simp add: b_def served_def k_def)
  then have b2: "buf fh2 = \<lparr>p = drop k (p (buf fh1)), begin_offset = b + int k\<rparr>"
    by (simp only: bk)
  have p2: "p (buf fh2) = drop k (p (buf fh1))" and o2: "begin_offset (buf fh2) = b + int k"
    by (simp_all add: b2)
  have l2: "int (len (buf fh2)) = b + int (len (buf fh1)) - begin_offset (buf fh2)"
    unfolding o2 len_def p2 using k by (simp add: len_def)
  have inv: "window_ok remote (buf fh1) \<longrightarrow> window_ok remote (buf fh2)"
    using window_ok_drop [of remote "buf fh1" k] k by (simp add: b2 b_def)
  have later: "\<forall>off2 n2. begin_offset (buf fh2) \<le> off2 \<longrightarrow>
            window_bytes (buf fh2) off2 n2 = window_bytes (buf fh1) off2 n2"
  proof (intro allI impI)
    fix off2 :: int and n2 :: nat
    assume "begin_offset (buf fh2) \<le> off2"
    then have "b + int k \<le> off2" by (simp only: o2)
    then have e: "nat (off2 - (b + int k)) + k = nat (off2 - b)" by linarith
    have "window_bytes (buf fh2) off2 n2 = take n2 (drop (nat (off2 - (b + int k)) + k) (p (buf fh1)))"
      by (simp add: window_bytes_def p2 o2 add.commute)
    also have "\<dots> = window_bytes (buf fh1) off2 n2"
      unfolding window_bytes_def b_def [symmetric] by (simp only: e)
    finally show "window_bytes (buf fh2) off2 n2 = window_bytes (buf fh1) off2 n2" .
  qed
  have c1: "p (buf fh2) = drop (nat (off - begin_offset (buf fh1)) + min sz (nat (int (len (buf fh1)) + begin_offset (buf fh1) - off))) (p (buf fh1))"
    using p2 by (simp only: k_def served_def b_def)
  have c2: "begin_offset (buf fh2) = off + int (min sz (nat (int (len (buf fh1)) + begin_offset (buf fh1) - off)))"
    using o2 bk by (simp only: served_def b_def)
  from w c1 c2 l2 inv later show ?thesis unfolding b_def by (intro conjI) assumption+
qed

theorem shrink_keeps_window_witness:
  "can_shrink big_file \<and> MAX_BUFFER_LEN < len (buf big_file) \<and> window_ok big_remote (buf big_file) \<and>
   ftpfs_read_chunk quiet_env ftpfs_init big_file ''ftp://host/f'' True 10 5 True =
     Some (ftpfs_init, big_file\<lparr>last_offset := 15, buf := \<lparr>p = replicate 307195 2, begin_offset = 15\<rparr>\<rparr>,
           Some (replicate 10 1), Served 10) \<and>
   window_ok big_remote \<lparr>p = replicate 307195 2, begin_offset = 15\<rparr> \<and>
   window_bytes \<lparr>p = replicate 307195 2, begin_offset = 15\<rparr> 20 3 = window_bytes (buf big_file) 20 3"
proof -
  let ?fh2 = "big_file\<lparr>last_offset := 15, buf := \<lparr>p = replicate 307195 2, begin_offset = 15\<rparr>\<rparr>"
  have s: "can_shrink big_file" by (simp add: big_file_def)
  have m: "MAX_BUFFER_LEN < len (buf big_file)" by (simp add: big_file_def MAX_BUFFER_LEN_def len_def)
  have w: "window_ok big_remote (buf big_file)"
    by (simp add: window_ok_def big_remote_def big_file_def len_def)
  have b: "buf ?fh2 = \<lparr>p = replicate 307195 2, begin_offset = 15\<rparr>" by simp
  note t = shrink_keeps_window [OF big_fetch big_run s m, of big_remote]
  from t w have w2: "window_ok big_remote (buf ?fh2)" by blast
  from t have "begin_offset (buf ?fh2) \<le> 20 \<longrightarrow> window_bytes (buf ?fh2) 20 3 = window_bytes (buf big_file) 20 3"
    by blast
  then have l: "window_bytes (buf ?fh2) 20 3 = window_bytes (buf big_file) 20 3" by simp
  from s m w big_run w2 l show ?thesis unfolding b by (intro conjI) assumption+
qed

section \<open>Restart of the transfer\<close>

text \<open>The decimal text of a number below \<open>10 ^ k\<close> has at most \<open>k\<close> digits.\<close>

lemma dec_nat_length:
  "0 < k \<Longrightarrow> n < 10 ^ k \<Longrightarrow> length (dec_nat n) \<le> k"
proof (induction k arbitrary: n)
  case 0
  then show ?case by simp
next
  case (Suc k)
  show ?case
  proof (cases "n < 10")
    case True
    then show ?thesis by (simp add: dec_nat.simps [of n])
  next
    case False
    with Suc.prems have k: "0 < k" by (cases k) auto
    from Suc.prems have "n div 10 < 10 ^ k" by (simp add: less_mult_imp_div_less mult.commute)
    from Suc.IH [OF k this] False show ?thesis by (simp add: dec_nat.simps [of n])
  qed
qed

lemma range_string_fits:
  assumes "0 < off" and "off < 10 ^ 13"
  shows "range_string off = dec_lld off @ ''-''"
proof -
  from assms have "nat off < 10 ^ 13" by (simp add: nat_less_iff)
  from dec_nat_length [OF _ this] have "length (dec_nat (nat off)) \<le> 13" by simp
  with assms(1) show ?thesis by (simp add: range_string_def dec_lld_def)
qed

text \<open>An offset of 14 digits fills the array: the dash is cut off.\<close>

lemma range_string_cut:
  "range_string 12345678901234 = ''12345678901234''"
  by (simp add: range_string_def dec_lld_def dec_nat.simps)

lemma restart_fields:
  "buf (snd (restart_transfer g fh path off)) = \<lparr>p = [], begin_offset = off\<rparr> \<and>
   current_fh (fst (restart_transfer g fh path off)) = Some (addr fh) \<and>
   attached_to_multi (fst (restart_transfer g fh path off)) \<and>
   conn_url (fst (restart_transfer g fh path off)) = Some path \<and>
   conn_writedata (fst (restart_transfer g fh path off)) = Some (addr fh) \<and>
   conn_range (fst (restart_transfer g fh path off)) =
     (if off = 0 then conn_range g else Some (range_string off))"
  by (cases "buf fh") (simp add: restart_transfer_def Let_def buf_clear_def cancel_previous_multi_def)

text \<open>
  After a restart the pump starts with an empty buffer whose window begins at the requested
  offset, and the range is cleared again after the first pass.
\<close>

lemma restart_result:
  "restart_transfer g fh path off =
     (fst (restart_transfer g fh path off), fh\<lparr>buf := \<lparr>p = [], begin_offset = off\<rparr>\<rparr>)"
  by (cases "buf fh") (simp add: restart_transfer_def Let_def buf_clear_def)

lemma fetch_after_restart:
  assumes "cache_miss fh sz off"
    and "read_chunk_prepare e g fh path off = restart_transfer g fh path off"
  shows "read_chunk_fetch e g fh path sz off =
           (case multi_perform_loop (performs e) [] of
              None \<Rightarrow> None
            | Some (run, bytes, perfs) \<Rightarrow>
                (case select_loop (selects e) perfs sz off off bytes run of
                   None \<Rightarrow> None
                 | Some (err, run', bytes') \<Rightarrow>
                     Some ((fst (restart_transfer g fh path off))\<lparr>conn_range := None\<rparr>,
                           fh\<lparr>buf := \<lparr>p = bytes', begin_offset = off\<rparr>\<rparr>,
                           if run' = 0 then info_read_loop (msgs e) err else err)))"
  unfolding read_chunk_fetch_def assms(2)
  using assms(1) by (subst restart_result) (simp split: option.splits)

lemma foreign_hit_run:
  "ftpfs_read_chunk quiet_env other_owner cached_file ''ftp://host/f'' True 4 102 True =
     Some (other_owner, cached_file\<lparr>last_offset := 106\<rparr>, Some [3, 4, 5, 6], Served 4)"
  by (simp add: ftpfs_read_chunk_def read_chunk_fetch_def cache_miss_def read_chunk_serve_def
      cached_file_def new_file_def len_def Let_def MAX_BUFFER_LEN_def)

text \<open>
  Claim C1, as stated, fails: a handle that is not the last user of the shared connection
  is served from its own window without a restart when the window covers the request.
  Here the window holds the bytes 100 to 107, another handle owns the connection, and a read
  of 4 bytes at offset 102 leaves the buffer, its \<open>begin_offset\<close>, the owner and the
  connection as they were.
\<close>

theorem foreign_hit_counterexample:
  "current_fh other_owner \<noteq> Some (addr cached_file) \<and>
   ftpfs_read_chunk quiet_env other_owner cached_file ''ftp://host/f'' True 4 102 True =
     Some (other_owner, cached_file\<lparr>last_offset := 106\<rparr>, Some [3, 4, 5, 6], Served 4) \<and>
   p (buf (cached_file\<lparr>last_offset := 106\<rparr>)) = [1, 2, 3, 4, 5, 6, 7, 8] \<and>
   begin_offset (buf (cached_file\<lparr>last_offset := 106\<rparr>)) = 100 \<and>
   current_fh other_owner = Some 2 \<and>
   conn_url other_owner = None"
  using foreign_hit_run
  by (simp add: other_owner_def cached_file_def new_file_def ftpfs_init_def)

text \<open>
  In the range of the host the tests of the code, computed modulo \<open>2 ^ 64\<close>, have the
  values of the integer tests of the model.
\<close>

lemma u64_id: "0 \<le> x \<Longrightarrow> x < 2 ^ 64 \<Longrightarrow> u64 x = x"
  by (simp add: u64_def)

lemma cache_miss_u64_eq:
  assumes "host_range fh sz off"
  shows "cache_miss_u64 fh sz off = cache_miss fh sz off \<and>
         (u64 off > u64 (begin_offset (buf fh) + int (len (buf fh)))) =
           (off > begin_offset (buf fh) + int (len (buf fh)))"
proof -
  let ?b = "begin_offset (buf fh)" and ?l = "int (len (buf fh))"
  from assms have r: "0 \<le> ?b" "?b < 2 ^ 62" "?l < 2 ^ 62" "int sz < 2 ^ 62" "0 \<le> off" "off < 2 ^ 62"
    by (simp_all add: host_range_def)
  have o: "u64 off = off" using r by (intro u64_id) simp_all
  have e: "u64 (?b + ?l) = ?b + ?l" using r by (intro u64_id) simp_all
  have c: "(u64 off > u64 (?b + ?l)) = (off > ?b + ?l)" by (simp only: o e)
  show ?thesis
  proof (cases "int sz + off - ?b < 0")
    case True
    then have "off < ?b" by simp
    then show ?thesis using c by (simp add: cache_miss_u64_def cache_miss_def)
  next
    case False
    then have "u64 (int sz + off - ?b) = int sz + off - ?b" using r by (intro u64_id) simp_all
    then show ?thesis using c by (simp add: cache_miss_u64_def cache_miss_def)
  qed
qed

text \<open>
  A request that the window covers is answered from the window: the first half of
  \<open>ftpfs_read_chunk\<close> changes neither the connection state nor the handle, whichever handle
  used the connection last.
\<close>

lemma covered_served:
  assumes "begin_offset (buf fh) \<le> off"
    and "int sz + off - begin_offset (buf fh) \<le> int (len (buf fh))"
  shows "\<not> cache_miss fh sz off \<and>
         read_chunk_fetch e g fh path sz off = Some (g, fh, False) \<and>
         ftpfs_read_chunk e g fh path rbuf sz off upd =
           Some (g, fst (read_chunk_serve fh rbuf sz off upd),
                 if rbuf then Some (window_bytes (buf fh) off sz) else None, Served sz)"
proof -
  from assms have m: "\<not> cache_miss fh sz off" by (simp add: cache_miss_def)
  then have f: "read_chunk_fetch e g fh path sz off = Some (g, fh, False)"
    by (simp add: read_chunk_fetch_def)
  from assms have n: "min sz (nat (int (len (buf fh)) + begin_offset (buf fh) - off)) = sz"
    by simp
  obtain fa oa na where s: "read_chunk_serve fh rbuf sz off upd = (fa, oa, na)"
    by (cases "read_chunk_serve fh rbuf sz off upd")
  from serve_count [of fh rbuf sz off upd] serve_out [of fh rbuf sz off upd] s n
  have "na = sz" "oa = (if rbuf then Some (window_bytes (buf fh) off sz) else None)"
    by simp_all
  with f s have "ftpfs_read_chunk e g fh path rbuf sz off upd =
           Some (g, fst (read_chunk_serve fh rbuf sz off upd),
                 if rbuf then Some (window_bytes (buf fh) off sz) else None, Served sz)"
    by (simp add: ftpfs_read_chunk_def)
  with m f show ?thesis by simp
qed

text \<open>
  Claim C1, amended.  For calls in the range of the host (offsets, sizes and window bounds
  not negative and below \<open>2 ^ 62\<close>, where the tests of the code, computed modulo
  \<open>2 ^ 64\<close>, agree with the integer tests): when the offset is a backward seek
  (\<open>offset < begin_offset\<close>), or a jump past the window end
  (\<open>offset > begin_offset + len\<close>), or the call cannot be answered from the window
  (\<open>len < size + offset - begin_offset\<close>) and comes from a handle other than the last user
  of the shared connection, the engine takes the restart path: the call is a cache miss, the
  buffer is cleared, \<open>begin_offset\<close> becomes the offset, the handle becomes the owner, and
  the connection gets the file URL, the handle's buffer as target and, when the offset is not
  0, the range text printed from the offset into the 15-byte array; for offsets of up to 13
  digits that text is the offset followed by a dash.  The pump then fills the empty buffer
  from that offset on.  When the window covers the request
  (\<open>begin_offset \<le> offset\<close> and \<open>size + offset - begin_offset \<le> len\<close>), the call is
  served from the window without a restart, also for a handle other than the last user:
  connection state, owner and buffer are unchanged when the copy starts, and the requested
  bytes are returned.
\<close>

theorem restart_when_seek_or_foreign_miss:
  assumes "host_range fh sz off"
  shows "cache_miss_u64 fh sz off = cache_miss fh sz off \<and>
         (u64 off > u64 (begin_offset (buf fh) + int (len (buf fh)))) =
           (off > begin_offset (buf fh) + int (len (buf fh))) \<and>
         (off < begin_offset (buf fh) \<or> begin_offset (buf fh) + int (len (buf fh)) < off \<or>
          (current_fh g \<noteq> Some (addr fh) \<and> int (len (buf fh)) < int sz + off - begin_offset (buf fh)) \<longrightarrow>
            cache_miss fh sz off \<and>
            read_chunk_prepare e g fh path off = restart_transfer g fh path off \<and>
            read_chunk_fetch e g fh path sz off =
              (case multi_perform_loop (performs e) [] of
                 None \<Rightarrow> None
               | Some (run, bytes, perfs) \<Rightarrow>
                   (case select_loop (selects e) perfs sz off off bytes run of
                      None \<Rightarrow> None
                    | Some (err, run', bytes') \<Rightarrow>
                        Some ((fst (restart_transfer g fh path off))\<lparr>conn_range := None\<rparr>,
                              fh\<lparr>buf := \<lparr>p = bytes', begin_offset = off\<rparr>\<rparr>,
                              if run' = 0 then info_read_loop (msgs e) err else err))) \<and>
            buf (snd (restart_transfer g fh path off)) = \<lparr>p = [], begin_offset = off\<rparr> \<and>
            current_fh (fst (restart_transfer g fh path off)) = Some (addr fh) \<and>
            attached_to_multi (fst (restart_transfer g fh path off)) \<and>
            conn_url (fst (restart_transfer g fh path off)) = Some path \<and>
            conn_writedata (fst (restart_transfer g fh path off)) = Some (addr fh) \<and>
            conn_range (fst (restart_transfer g fh path off)) =
              (if off = 0 then conn_range g else Some (range_string off)) \<and>
            (0 < off \<and> off < 10 ^ 13 \<longrightarrow>
               conn_range (fst (restart_transfer g fh path off)) = Some (dec_lld off @ ''-''))) \<and>
         (begin_offset (buf fh) \<le> off \<and> int sz + off - begin_offset (buf fh) \<le> int (len (buf fh)) \<longrightarrow>
            \<not> cache_miss fh sz off \<and>
            read_chunk_fetch e g fh path sz off = Some (g, fh, False) \<and>
            ftpfs_read_chunk e g fh path rbuf sz off upd =
              Some (g, fst (read_chunk_serve fh rbuf sz off upd),
                    if rbuf then Some (window_bytes (buf fh) off sz) else None, Served sz))"
proof (intro conjI impI)
  show "cache_miss_u64 fh sz off = cache_miss fh sz off"
    using cache_miss_u64_eq [OF assms] by simp
  show "(u64 off > u64 (begin_offset (buf fh) + int (len (buf fh)))) =
           (off > begin_offset (buf fh) + int (len (buf fh)))"
    using cache_miss_u64_eq [OF assms] by simp
next
  assume c: "off < begin_offset (buf fh) \<or> begin_offset (buf fh) + int (len (buf fh)) < off \<or>
          (current_fh g \<noteq> Some (addr fh) \<and> int (len (buf fh)) < int sz + off - begin_offset (buf fh))"
  then show m: "cache_miss fh sz off" by (auto simp: cache_miss_def)
  from c show r: "read_chunk_prepare e g fh path off = restart_transfer g fh path off"
    by (auto simp: read_chunk_prepare_def)
  from fetch_after_restart [OF m r] show "read_chunk_fetch e g fh path sz off =
              (case multi_perform_loop (performs e) [] of
                 None \<Rightarrow> None
               | Some (run, bytes, perfs) \<Rightarrow>
                   (case select_loop (selects e) perfs sz off off bytes run of
                      None \<Rightarrow> None
                    | Some (err, run', bytes') \<Rightarrow>
                        Some ((fst (restart_transfer g fh path off))\<lparr>conn_range := None\<rparr>,
                              fh\<lparr>buf := \<lparr>p = bytes', begin_offset = off\<rparr>\<rparr>,
                              if run' = 0 then info_read_loop (msgs e) err else err)))" .
  note rf = restart_fields [of g fh path off]
  from rf show "buf (snd (restart_transfer g fh path off)) = \<lparr>p = [], begin_offset = off\<rparr>" by simp
  from rf show "current_fh (fst (restart_transfer g fh path off)) = Some (addr fh)" by simp
  from rf show "attached_to_multi (fst (restart_transfer g fh path off))" by simp
  from rf show "conn_url (fst (restart_transfer g fh path off)) = Some path" by simp
  from rf show "conn_writedata (fst (restart_transfer g fh path off)) = Some (addr fh)" by simp
  from rf show "conn_range (fst (restart_transfer g fh path off)) =
              (if off = 0 then conn_range g else Some (range_string off))" by simp
  {
    assume d: "0 < off \<and> off < 10 ^ 13"
    with rf range_string_fits [of off]
    show "conn_range (fst (restart_transfer g fh path off)) = Some (dec_lld off @ ''-'')" by auto
  }
next
  assume h: "begin_offset (buf fh) \<le> off \<and> int sz + off - begin_offset (buf fh) \<le> int (len (buf fh))"
  note cs = covered_served [of fh off sz e g path rbuf upd]
  from h cs show "\<not> cache_miss fh sz off" by simp
  from h cs show "read_chunk_fetch e g fh path sz off = Some (g, fh, False)" by simp
  from h cs show "ftpfs_read_chunk e g fh path rbuf sz off upd =
              Some (g, fst (read_chunk_serve fh rbuf sz off upd),
                    if rbuf then Some (window_bytes (buf fh) off sz) else None, Served sz)" by simp
qed

theorem restart_when_seek_or_foreign_miss_witness:
  "host_range cached_file 4 106 \<and> host_range cached_file 4 102 \<and>
   current_fh other_owner \<noteq> Some (addr cached_file) \<and>
   int (len (buf cached_file)) < int 4 + 106 - begin_offset (buf cached_file) \<and>
   cache_miss_u64 cached_file 4 106 \<and>
   read_chunk_prepare quiet_env other_owner cached_file ''ftp://host/f'' 106 =
     (\<lparr>current_fh = Some 1, attached_to_multi = True, conn_url = Some ''ftp://host/f'',
       conn_range = Some ''106-'', conn_writedata = Some 1, requests = []\<rparr>,
      cached_file\<lparr>buf := \<lparr>p = [], begin_offset = 106\<rparr>\<rparr>) \<and>
   begin_offset (buf cached_file) \<le> 102 \<and>
   int 4 + 102 - begin_offset (buf cached_file) \<le> int (len (buf cached_file)) \<and>
   \<not> cache_miss_u64 cached_file 4 102 \<and>
   read_chunk_fetch quiet_env other_owner cached_file ''ftp://host/f'' 4 102 =
     Some (other_owner, cached_file, False)"
proof -
  have r: "host_range cached_file 4 106" "host_range cached_file 4 102"
    by (simp_all add: host_range_def cached_file_def new_file_def len_def)
  have h: "current_fh other_owner \<noteq> Some (addr cached_file) \<and>
      int (len (buf cached_file)) < int 4 + 106 - begin_offset (buf cached_file)"
    by (simp add: other_owner_def cached_file_def new_file_def ftpfs_init_def len_def)
  have k: "begin_offset (buf cached_file) \<le> 102 \<and>
      int 4 + 102 - begin_offset (buf cached_file) \<le> int (len (buf cached_file))"
    by (simp add: cached_file_def new_file_def len_def)
  have v: "restart_transfer other_owner cached_file ''ftp://host/f'' 106 =
     (\<lparr>current_fh = Some 1, attached_to_multi = True, conn_url = Some ''ftp://host/f'',
       conn_range = Some ''106-'', conn_writedata = Some 1, requests = []\<rparr>,
      cached_file\<lparr>buf := \<lparr>p = [], begin_offset = 106\<rparr>\<rparr>)"
    by (simp add: restart_transfer_def Let_def buf_clear_def cancel_previous_multi_def
        other_owner_def cached_file_def new_file_def ftpfs_init_def range_string_def dec_lld_def
        dec_nat.simps)
  note t1 = restart_when_seek_or_foreign_miss [OF r(1), of other_owner quiet_env "''ftp://host/f''" True True]
  note t2 = restart_when_seek_or_foreign_miss [OF r(2), of other_owner quiet_env "''ftp://host/f''" True True]
  from t1 h have a: "cache_miss_u64 cached_file 4 106 \<and>
        read_chunk_prepare quiet_env other_owner cached_file ''ftp://host/f'' 106 =
          restart_transfer other_owner cached_file ''ftp://host/f'' 106"
    by blast
  from t2 k have b: "\<not> cache_miss_u64 cached_file 4 102 \<and>
     read_chunk_fetch quiet_env other_owner cached_file ''ftp://host/f'' 4 102 =
       Some (other_owner, cached_file, False)"
    by blast
  from r h k a b v show ?thesis by (intro conjI) simp_all
qed

section \<open>Dispatcher\<close>

lemma op_return_id: "op_return err = err"
  by (simp add: op_return_def)

lemma create_empty_file_requests:
  "requests (fst (create_empty_file e g path)) = requests g @ [Upload_empty path] \<and>
   snd (create_empty_file e g path) = (if create_res e = 0 then 0 else - EPERM)"
  by (simp add: create_empty_file_def cancel_previous_multi_def)

lemma chmod_requests:
  "requests (fst (ftpfs_chmod e g path m)) =
     requests g @ [Quote [SITE_CHMOD (unat m mod 4096) (get_file_name e path)] path]"
proof -
  have "m - m div 0x1000 * 0x1000 = m mod 0x1000" by (fact minus_div_mult_eq_mod)
  then have "unat (m - m div 0x1000 * 0x1000) = unat m mod 4096" by (simp add: unat_mod)
  then show ?thesis
    by (simp add: ftpfs_chmod_def ftpfs_do_cmd_def cancel_previous_multi_def Let_def)
qed

text \<open>
  Claim C7.  A read on a handle with \<open>pos > 0\<close> or with an upload connection returns the
  I/O error and leaves the connection state and the handle as they were, so the read engine
  is not entered; every other read is the call of \<open>ftpfs_read_chunk\<close> on the full path with
  \<open>update_offset\<close> set, whose bad read becomes the I/O error.
\<close>

theorem read_rejected_after_write:
  "(0 < pos fh \<or> write_conn fh \<longrightarrow>
      ftpfs_read e g fh path rbuf sz off = Some (g, fh, None, - EIO)) \<and>
   (\<not> (0 < pos fh \<or> write_conn fh) \<longrightarrow>
      ftpfs_read e g fh path rbuf sz off =
        map_option (\<lambda>(g1, fh1, out, r). (g1, fh1, out,
                       case r of CURLFTPFS_BAD_READ \<Rightarrow> - EIO | Served n \<Rightarrow> int n))
          (ftpfs_read_chunk e g fh (get_full_path e path) rbuf sz off True))"
  unfolding ftpfs_read_def op_return_id by (auto split: option.splits)

theorem read_rejected_after_write_witness:
  "0 < pos (cached_file\<lparr>pos := 5\<rparr>) \<and>
   ftpfs_read quiet_env other_owner (cached_file\<lparr>pos := 5\<rparr>) ''/f'' True 4 102 =
     Some (other_owner, cached_file\<lparr>pos := 5\<rparr>, None, - 5) \<and>
   \<not> (0 < pos cached_file \<or> write_conn cached_file) \<and>
   ftpfs_read quiet_env other_owner cached_file ''/f'' True 4 102 =
     Some (other_owner, cached_file\<lparr>last_offset := 106\<rparr>, Some [3, 4, 5, 6], 4)"
proof -
  have a: "0 < pos (cached_file\<lparr>pos := 5\<rparr>)" by simp
  have b: "\<not> (0 < pos cached_file \<or> write_conn cached_file)"
    by (simp add: cached_file_def new_file_def)
  have p: "get_full_path quiet_env ''/f'' = ''ftp://host/f''" by (simp add: quiet_env_def)
  from read_rejected_after_write [of "cached_file\<lparr>pos := 5\<rparr>" quiet_env other_owner "''/f''" True 4 102] a
  have c: "ftpfs_read quiet_env other_owner (cached_file\<lparr>pos := 5\<rparr>) ''/f'' True 4 102 =
     Some (other_owner, cached_file\<lparr>pos := 5\<rparr>, None, - 5)" by (simp add: EIO_def)
  from read_rejected_after_write [of cached_file quiet_env other_owner "''/f''" True 4 102] b
  have d: "ftpfs_read quiet_env other_owner cached_file ''/f'' True 4 102 =
     Some (other_owner, cached_file\<lparr>last_offset := 106\<rparr>, Some [3, 4, 5, 6], 4)"
    by (simp add: p foreign_hit_run)
  from a b c d show ?thesis by (intro conjI) assumption+
qed

text \<open>
  Claim C9.  \<open>ftpfs_ftruncate\<close> to length 0: with \<open>pos = 0\<close> it sets \<open>write_may_start\<close>,
  uploads an empty file to the path the handle was opened with and returns the result of
  that upload; with any other \<open>pos\<close> (so with \<open>pos > 0\<close>) it returns permission denied
  and does nothing.
\<close>

theorem ftruncate_zero_needs_fresh_handle:
  "(pos fh = 0 \<longrightarrow>
      ftpfs_ftruncate e g fh path 0 =
        (fst (create_empty_file e g (open_path fh)), fh\<lparr>write_may_start := True\<rparr>,
         snd (create_empty_file e g (open_path fh))) \<and>
      requests (fst (create_empty_file e g (open_path fh))) = requests g @ [Upload_empty (open_path fh)] \<and>
      snd (create_empty_file e g (open_path fh)) = (if create_res e = 0 then 0 else - EPERM)) \<and>
   (pos fh \<noteq> 0 \<longrightarrow> ftpfs_ftruncate e g fh path 0 = (g, fh, - EPERM))"
  using create_empty_file_requests [of e g "open_path fh"]
  by (cases "create_empty_file e g (open_path fh)") (simp add: ftpfs_ftruncate_def op_return_id)

theorem ftruncate_zero_needs_fresh_handle_witness:
  "pos (new_file 1 quiet_env ''/f'' 0) = 0 \<and>
   ftpfs_ftruncate quiet_env ftpfs_init (new_file 1 quiet_env ''/f'' 0) ''/f'' 0 =
     (ftpfs_init\<lparr>conn_url := Some ''ftp://host/f'', requests := [Upload_empty ''/f'']\<rparr>,
      (new_file 1 quiet_env ''/f'' 0)\<lparr>write_may_start := True\<rparr>, 0) \<and>
   pos ((new_file 1 quiet_env ''/f'' 0)\<lparr>pos := 3\<rparr>) \<noteq> 0 \<and>
   ftpfs_ftruncate quiet_env ftpfs_init ((new_file 1 quiet_env ''/f'' 0)\<lparr>pos := 3\<rparr>) ''/f'' 0 =
     (ftpfs_init, (new_file 1 quiet_env ''/f'' 0)\<lparr>pos := 3\<rparr>, - 1)"
proof -
  let ?f = "new_file 1 quiet_env ''/f'' 0"
  have a: "pos ?f = 0" by (simp add: new_file_def)
  have b: "pos (?f\<lparr>pos := 3\<rparr>) \<noteq> 0" by simp
  have c: "create_empty_file quiet_env ftpfs_init (open_path ?f) =
      (ftpfs_init\<lparr>conn_url := Some ''ftp://host/f'', requests := [Upload_empty ''/f'']\<rparr>, 0)"
    by (simp add: create_empty_file_def cancel_previous_multi_def new_file_def quiet_env_def ftpfs_init_def)
  from ftruncate_zero_needs_fresh_handle [of ?f quiet_env ftpfs_init "''/f''"] a c
  have d: "ftpfs_ftruncate quiet_env ftpfs_init ?f ''/f'' 0 =
     (ftpfs_init\<lparr>conn_url := Some ''ftp://host/f'', requests := [Upload_empty ''/f'']\<rparr>,
      ?f\<lparr>write_may_start := True\<rparr>, 0)" by simp
  from ftruncate_zero_needs_fresh_handle [of "?f\<lparr>pos := 3\<rparr>" quiet_env ftpfs_init "''/f''"] b
  have e: "ftpfs_ftruncate quiet_env ftpfs_init (?f\<lparr>pos := 3\<rparr>) ''/f'' 0 =
     (ftpfs_init, ?f\<lparr>pos := 3\<rparr>, - 1)" by (simp add: EPERM_def)
  from a b d e show ?thesis by (intro conjI) assumption+
qed

text \<open>
  Claim C10.  \<open>ftpfs_mknod\<close> with a mode whose file-type bits are not those of a regular
  file returns permission denied and performs no request.  For a regular file it uploads an
  empty file and returns the result of that; when the upload succeeded it then sends
  \<open>SITE CHMOD\<close> with the low twelve bits of the mode.
\<close>

theorem mknod_regular_files_only:
  "((m AND S_IFMT) \<noteq> S_IFREG \<longrightarrow> ftpfs_mknod e g path m = (g, - EPERM)) \<and>
   ((m AND S_IFMT) = S_IFREG \<longrightarrow>
      snd (ftpfs_mknod e g path m) = (if create_res e = 0 then 0 else - EPERM) \<and>
      requests (fst (ftpfs_mknod e g path m)) =
        requests g @ [Upload_empty path] @
        (if create_res e = 0
         then [Quote [SITE_CHMOD (unat m mod 4096) (get_file_name e path)] path] else []))"
  using create_empty_file_requests [of e g path]
    chmod_requests [of e "fst (create_empty_file e g path)" path m]
  by (cases "create_empty_file e g path") (auto simp: ftpfs_mknod_def op_return_id EPERM_def)

theorem mknod_regular_files_only_witness:
  "((0x2000 :: 32 word) AND S_IFMT) \<noteq> S_IFREG \<and>
   ftpfs_mknod quiet_env ftpfs_init ''/f'' 0x2000 = (ftpfs_init, - 1) \<and>
   ((0x81A4 :: 32 word) AND S_IFMT) = S_IFREG \<and>
   snd (ftpfs_mknod quiet_env ftpfs_init ''/f'' 0x81A4) = 0 \<and>
   requests (fst (ftpfs_mknod quiet_env ftpfs_init ''/f'' 0x81A4)) =
     [Upload_empty ''/f'', Quote [SITE_CHMOD 420 ''/f''] ''/f'']"
proof -
  have a: "((0x2000 :: 32 word) AND S_IFMT) \<noteq> S_IFREG" by (simp add: S_IFMT_def S_IFREG_def)
  have b: "((0x81A4 :: 32 word) AND S_IFMT) = S_IFREG" by (simp add: S_IFMT_def S_IFREG_def)
  from mknod_regular_files_only [of "0x2000" quiet_env ftpfs_init "''/f''"] a
  have c: "ftpfs_mknod quiet_env ftpfs_init ''/f'' 0x2000 = (ftpfs_init, - 1)" by (simp add: EPERM_def)
  from mknod_regular_files_only [of "0x81A4" quiet_env ftpfs_init "''/f''"] b
  have d: "snd (ftpfs_mknod quiet_env ftpfs_init ''/f'' 0x81A4) = 0 \<and>
     requests (fst (ftpfs_mknod quiet_env ftpfs_init ''/f'' 0x81A4)) =
       [Upload_empty ''/f'', Quote [SITE_CHMOD 420 ''/f''] ''/f'']"
    by (simp add: quiet_env_def ftpfs_init_def)
  from a b c d show ?thesis by (intro conjI) simp_all
qed

section \<open>Truncate and flush\<close>

lemma test_size_value:
  "snd (test_size e g path) = (case getattr_res e of None \<Rightarrow> - ENOENT | Some s \<Rightarrow> int s) \<and>
   requests (fst (test_size e g path)) = requests g @ [List_dir path]"
  by (simp add: test_size_def ftpfs_getattr_def cancel_previous_multi_def op_return_id split: option.splits)

text \<open>
  Claim C6, as stated, fails in its first part: truncating to length 0 does not always
  succeed.  When the server refuses the upload of the empty file (here the transfer ends
  with code 25), \<open>ftpfs_truncate\<close> returns permission denied.
\<close>

theorem truncate_zero_fails_counterexample:
  "ftpfs_truncate (quiet_env\<lparr>create_res := 25\<rparr>) ftpfs_init ''/f'' 0 =
     (ftpfs_init\<lparr>conn_url := Some ''ftp://host/f'', requests := [Upload_empty ''/f'']\<rparr>, - 1)"
  by (simp add: ftpfs_truncate_def create_empty_file_def cancel_previous_multi_def op_return_id
      quiet_env_def ftpfs_init_def EPERM_def)

text \<open>
  Claim C6, amended.  Truncating to length 0 is the upload of an empty file and returns
  the result of that upload: 0 when the transfer succeeds, permission denied when it fails.
  Truncating to any other length lists the directory and performs no other request; it
  returns 0 when the length is the size that the listing reports, and permission denied
  for every other positive length, also when the listing has no entry for the path.
\<close>

theorem truncate_zero_or_same_size:
  "ftpfs_truncate e g path 0 = create_empty_file e g path \<and>
   requests (fst (ftpfs_truncate e g path 0)) = requests g @ [Upload_empty path] \<and>
   snd (ftpfs_truncate e g path 0) = (if create_res e = 0 then 0 else - EPERM) \<and>
   (off \<noteq> 0 \<longrightarrow>
      requests (fst (ftpfs_truncate e g path off)) = requests g @ [List_dir path] \<and>
      snd (ftpfs_truncate e g path off) =
        (if off = (case getattr_res e of None \<Rightarrow> - ENOENT | Some s \<Rightarrow> int s) then 0 else - EPERM)) \<and>
   (0 < off \<and> getattr_res e = Some (nat off) \<longrightarrow> snd (ftpfs_truncate e g path off) = 0) \<and>
   (0 < off \<and> getattr_res e \<noteq> Some (nat off) \<longrightarrow> snd (ftpfs_truncate e g path off) = - EPERM)"
proof -
  have z: "ftpfs_truncate e g path 0 = create_empty_file e g path"
    by (cases "create_empty_file e g path") (simp add: ftpfs_truncate_def op_return_id)
  have n: "off \<noteq> 0 \<longrightarrow>
      requests (fst (ftpfs_truncate e g path off)) = requests g @ [List_dir path] \<and>
      snd (ftpfs_truncate e g path off) =
        (if off = (case getattr_res e of None \<Rightarrow> - ENOENT | Some s \<Rightarrow> int s) then 0 else - EPERM)"
    using test_size_value [of e g path]
    by (cases "test_size e g path") (simp add: ftpfs_truncate_def op_return_id)
  have s: "0 < off \<and> getattr_res e = Some (nat off) \<longrightarrow> snd (ftpfs_truncate e g path off) = 0"
    using n by auto
  have d: "0 < off \<and> getattr_res e \<noteq> Some (nat off) \<longrightarrow> snd (ftpfs_truncate e g path off) = - EPERM"
    using n by (cases "getattr_res e") (auto simp: ENOENT_def)
  from z n s d create_empty_file_requests [of e g path] show ?thesis by (intro conjI) simp_all
qed

theorem truncate_zero_or_same_size_witness:
  "snd (ftpfs_truncate quiet_env ftpfs_init ''/f'' 0) = 0 \<and>
   requests (fst (ftpfs_truncate quiet_env ftpfs_init ''/f'' 0)) = [Upload_empty ''/f''] \<and>
   (0 :: int) < 7 \<and> getattr_res (quiet_env\<lparr>getattr_res := Some 7\<rparr>) = Some (nat 7) \<and>
   snd (ftpfs_truncate (quiet_env\<lparr>getattr_res := Some 7\<rparr>) ftpfs_init ''/f'' 7) = 0 \<and>
   requests (fst (ftpfs_truncate (quiet_env\<lparr>getattr_res := Some 7\<rparr>) ftpfs_init ''/f'' 7)) = [List_dir ''/f''] \<and>
   getattr_res (quiet_env\<lparr>getattr_res := Some 7\<rparr>) \<noteq> Some (nat 3) \<and>
   snd (ftpfs_truncate (quiet_env\<lparr>getattr_res := Some 7\<rparr>) ftpfs_init ''/f'' 3) = - 1"
proof -
  let ?e = "quiet_env\<lparr>getattr_res := Some 7\<rparr>"
  have a: "create_res quiet_env = 0" "requests ftpfs_init = []" by (simp_all add: quiet_env_def ftpfs_init_def)
  have b: "(0 :: int) < 7 \<and> getattr_res ?e = Some (nat 7)" by simp
  have c: "(0 :: int) < 3 \<and> getattr_res ?e \<noteq> Some (nat 3)" by simp
  from truncate_zero_or_same_size [of quiet_env ftpfs_init "''/f''" 7, THEN conjunct2] a
  have d: "snd (ftpfs_truncate quiet_env ftpfs_init ''/f'' 0) = 0 \<and>
     requests (fst (ftpfs_truncate quiet_env ftpfs_init ''/f'' 0)) = [Upload_empty ''/f'']" by simp
  from truncate_zero_or_same_size [of ?e ftpfs_init "''/f''" 7] b a
  have e: "snd (ftpfs_truncate ?e ftpfs_init ''/f'' 7) = 0 \<and>
     requests (fst (ftpfs_truncate ?e ftpfs_init ''/f'' 7)) = [List_dir ''/f'']" by simp
  from truncate_zero_or_same_size [of ?e ftpfs_init "''/f''" 3] c
  have f: "snd (ftpfs_truncate ?e ftpfs_init ''/f'' 3) = - 1" by (simp add: EPERM_def)
  from b c d e f show ?thesis by (intro conjI) simp_all
qed

text \<open>The steps of \<open>ftpfs_flush\<close> on a handle with an upload.\<close>

lemma getattr_requests:
  "requests (fst (ftpfs_getattr e g path)) = requests g @ [List_dir path] \<and>
   snd (ftpfs_getattr e g path) = getattr_res e"
  by (simp add: ftpfs_getattr_def cancel_previous_multi_def)

lemma finish_running:
  "thread_running fh \<Longrightarrow>
   finish_write_thread e fh =
     Returns (fh\<lparr>eof := True, write_conn := False, thread_running := False,
                  write_fail_cause := cause_after_worker e fh\<rparr>,
              if cause_after_worker e fh \<noteq> 0 then - EIO else 0)"
  by (simp add: finish_write_thread_def Let_def)

text \<open>
  Claim C8, as stated, fails in its first part: flush does not always query the attributes
  after it has finished the upload.  When the worker's transfer has failed (here with code
  55), \<open>ftpfs_flush\<close> returns the I/O error at once and performs no request on the shared
  connection.
\<close>

theorem flush_failed_upload_counterexample:
  "write_conn uploading_file \<and> thread_running uploading_file \<and>
   ftpfs_flush (quiet_env\<lparr>worker_res := 55, getattr_res := Some 3\<rparr>) ftpfs_init uploading_file ''/f'' =
     Returns (ftpfs_init,
              uploading_file\<lparr>eof := True, write_conn := False, thread_running := False, write_fail_cause := 55\<rparr>,
              - 5) \<and>
   requests ftpfs_init = []"
  by (simp add: ftpfs_flush_def finish_write_thread_def cause_after_worker_def Let_def op_return_id
      uploading_file_def new_file_def quiet_env_def ftpfs_init_def EIO_def)

text \<open>
  Claim C8, amended.  On a handle with an upload connection and a worker,
  \<open>ftpfs_flush\<close> finishes the upload.  If that leaves a failure recorded, it returns the I/O
  error without any request.  Otherwise it lists the directory of the path; it returns not
  found when the listing has no entry, and when the reported size differs from \<open>pos\<close> it
  sets \<open>write_fail_cause\<close> to \<open>-999\<close> and returns the I/O error; otherwise it returns 0.
  The value \<open>-999\<close> is negative, so it is none of the codes of the transfer library, which
  are not negative.
\<close>

theorem flush_finishes_then_checks_size:
  assumes "write_conn fh" and "thread_running fh"
  shows "(cause_after_worker e fh \<noteq> 0 \<longrightarrow>
            ftpfs_flush e g fh path =
              Returns (g, fh\<lparr>eof := True, write_conn := False, thread_running := False,
                              write_fail_cause := cause_after_worker e fh\<rparr>, - EIO)) \<and>
         (cause_after_worker e fh = 0 \<longrightarrow>
            requests (fst (ftpfs_getattr e g path)) = requests g @ [List_dir path] \<and>
            ftpfs_flush e g fh path =
              (case getattr_res e of
                 None \<Rightarrow>
                   Returns (fst (ftpfs_getattr e g path),
                            fh\<lparr>eof := True, write_conn := False, thread_running := False, write_fail_cause := 0\<rparr>,
                            - ENOENT)
               | Some st_size \<Rightarrow>
                   if int st_size \<noteq> pos fh
                   then Returns (fst (ftpfs_getattr e g path),
                                 fh\<lparr>eof := True, write_conn := False, thread_running := False,
                                     write_fail_cause := flush_size_mismatch\<rparr>,
                                 - EIO)
                   else Returns (fst (ftpfs_getattr e g path),
                                 fh\<lparr>eof := True, write_conn := False, thread_running := False, write_fail_cause := 0\<rparr>,
                                 0))) \<and>
         flush_size_mismatch < 0 \<and> (\<forall>code :: nat. flush_size_mismatch \<noteq> int code)"
proof -
  have bad: "cause_after_worker e fh \<noteq> 0 \<longrightarrow>
            ftpfs_flush e g fh path =
              Returns (g, fh\<lparr>eof := True, write_conn := False, thread_running := False,
                              write_fail_cause := cause_after_worker e fh\<rparr>, - EIO)"
    using assms by (simp add: ftpfs_flush_def finish_running op_return_id EIO_def)
  have good: "cause_after_worker e fh = 0 \<longrightarrow>
            ftpfs_flush e g fh path =
              (case getattr_res e of
                 None \<Rightarrow>
                   Returns (fst (ftpfs_getattr e g path),
                            fh\<lparr>eof := True, write_conn := False, thread_running := False, write_fail_cause := 0\<rparr>,
                            - ENOENT)
               | Some st_size \<Rightarrow>
                   if int st_size \<noteq> pos fh
                   then Returns (fst (ftpfs_getattr e g path),
                                 fh\<lparr>eof := True, write_conn := False, thread_running := False,
                                     write_fail_cause := flush_size_mismatch\<rparr>,
                                 - EIO)
                   else Returns (fst (ftpfs_getattr e g path),
                                 fh\<lparr>eof := True, write_conn := False, thread_running := False, write_fail_cause := 0\<rparr>,
                                 0))"
    using assms getattr_requests [of e g path]
    by (cases "ftpfs_getattr e g path")
       (auto simp: ftpfs_flush_def finish_running op_return_id split: option.splits)
  have sentinel: "flush_size_mismatch < 0 \<and> (\<forall>code :: nat. flush_size_mismatch \<noteq> int code)"
    by (simp add: flush_size_mismatch_def)
  from bad good sentinel getattr_requests [of e g path] show ?thesis by (intro conjI) simp_all
qed

theorem flush_finishes_then_checks_size_witness:
  "write_conn uploading_file \<and> thread_running uploading_file \<and>
   cause_after_worker (quiet_env\<lparr>getattr_res := Some 3\<rparr>) uploading_file = 0 \<and>
   ftpfs_flush (quiet_env\<lparr>getattr_res := Some 3\<rparr>) ftpfs_init uploading_file ''/f'' =
     Returns (ftpfs_init\<lparr>conn_url := Some ''ftp://host/'', requests := [List_dir ''/f'']\<rparr>,
              uploading_file\<lparr>eof := True, write_conn := False, thread_running := False, write_fail_cause := - 999\<rparr>,
              - 5) \<and>
   cause_after_worker (quiet_env\<lparr>worker_res := 55\<rparr>) uploading_file = 55 \<and>
   ftpfs_flush (quiet_env\<lparr>worker_res := 55\<rparr>) ftpfs_init uploading_file ''/f'' =
     Returns (ftpfs_init,
              uploading_file\<lparr>eof := True, write_conn := False, thread_running := False, write_fail_cause := 55\<rparr>,
              - 5)"
proof -
  let ?e = "quiet_env\<lparr>getattr_res := Some 3\<rparr>"
  let ?b = "quiet_env\<lparr>worker_res := 55\<rparr>"
  have a: "write_conn uploading_file" "thread_running uploading_file"
    by (simp_all add: uploading_file_def)
  have c: "cause_after_worker ?e uploading_file = 0"
    by (simp add: cause_after_worker_def uploading_file_def new_file_def quiet_env_def)
  have c': "cause_after_worker ?b uploading_file = 55"
    by (simp add: cause_after_worker_def)
  have g: "fst (ftpfs_getattr ?e ftpfs_init ''/f'') =
      ftpfs_init\<lparr>conn_url := Some ''ftp://host/'', requests := [List_dir ''/f'']\<rparr>"
    by (simp add: ftpfs_getattr_def cancel_previous_multi_def ftpfs_init_def quiet_env_def)
  have q: "pos uploading_file = 5" by (simp add: uploading_file_def)
  from flush_finishes_then_checks_size [OF a, of ?e ftpfs_init "''/f''"] c g q
  have d: "ftpfs_flush ?e ftpfs_init uploading_file ''/f'' =
     Returns (ftpfs_init\<lparr>conn_url := Some ''ftp://host/'', requests := [List_dir ''/f'']\<rparr>,
              uploading_file\<lparr>eof := True, write_conn := False, thread_running := False, write_fail_cause := - 999\<rparr>,
              - 5)"
    by (simp add: flush_size_mismatch_def EIO_def)
  from flush_finishes_then_checks_size [OF a, of ?b ftpfs_init "''/f''"] c'
  have e: "ftpfs_flush ?b ftpfs_init uploading_file ''/f'' =
     Returns (ftpfs_init,
              uploading_file\<lparr>eof := True, write_conn := False, thread_running := False, write_fail_cause := 55\<rparr>,
              - 5)"
    by (simp add: EIO_def)
  from a c c' d e show ?thesis by (intro conjI) assumption+
qed

section \<open>Write calls\<close>











text \<open>
  A stray write returns the size as if it had succeeded, and changes nothing: no byte is
  handed over and \<open>pos\<close> stays.
\<close>

lemma stray_write_returns_size:
  "stray_write fh off \<Longrightarrow> ftpfs_write e g fh path wbuf off = Returns (g, fh, int (length wbuf))"
  by (auto simp: stray_write_def ftpfs_write_def write_start_first_def write_resume_def write_stream_def)






text \<open>
  Claim C3, as stated, fails: a write whose offset is not \<open>pos\<close> does not record a failure
  in \<open>write_fail_cause\<close>, and later writes need not fail.  On a handle with \<open>pos = 5\<close> and
  an upload in progress, a write at offset 2 returns the I/O error, and the write at offset
  5 that follows starts the worker again and succeeds; \<open>write_fail_cause\<close> is 0 at the end.
\<close>

theorem nonsequential_not_latched_counterexample:
  "write_fail_cause uploading_file = 0 \<and> write_conn uploading_file \<and> pos uploading_file = 5 \<and>
   write_run ftpfs_init uploading_file two_writes =
     Returns (ftpfs_init, uploading_file\<lparr>pos := 7\<rparr>, [- 5, 2]) \<and>
   write_fail_cause (uploading_file\<lparr>pos := 7\<rparr>) = 0"
  by (simp add: two_writes_def ftpfs_write_def write_start_first_def write_resume_def write_stream_def
      start_write_thread_def finish_write_thread_def
      cause_after_worker_def op_return_id Let_def buf_add_mem_def buf_init_def
      uploading_file_def new_file_def quiet_env_def EIO_def)

text \<open>
  Claim C3, amended.  On a handle with no failure recorded and an upload in progress, a
  write whose offset is not \<open>pos\<close> finishes the worker (the upload connection is released)
  and returns the I/O error, with \<open>pos\<close> unchanged.  The call itself does not set
  \<open>write_fail_cause\<close>: afterwards it holds the code of the worker's transfer, which is 0
  unless that transfer failed.
\<close>

theorem nonsequential_write_drains:
  assumes "write_fail_cause fh = 0" and "write_conn fh" and "thread_running fh" and "off \<noteq> pos fh"
  shows "ftpfs_write e g fh path wbuf off =
           Returns (g, fh\<lparr>eof := True, write_conn := False, thread_running := False,
                           write_fail_cause := int (worker_res e)\<rparr>, - EIO)"
  using assms
  by (simp add: ftpfs_write_def write_start_first_def write_resume_def write_stream_def
      finish_write_thread_def cause_after_worker_def op_return_id Let_def)

theorem nonsequential_write_drains_witness:
  "write_fail_cause uploading_file = 0 \<and> write_conn uploading_file \<and> thread_running uploading_file \<and>
   2 \<noteq> pos uploading_file \<and>
   ftpfs_write quiet_env ftpfs_init uploading_file ''/f'' [9] 2 =
     Returns (ftpfs_init, uploading_file\<lparr>eof := True, write_conn := False, thread_running := False\<rparr>, - 5) \<and>
   ftpfs_write (quiet_env\<lparr>worker_res := 55\<rparr>) ftpfs_init uploading_file ''/f'' [9] 2 =
     Returns (ftpfs_init, uploading_file\<lparr>eof := True, write_conn := False, thread_running := False,
                                          write_fail_cause := 55\<rparr>, - 5)"
proof -
  have a: "write_fail_cause uploading_file = 0" "write_conn uploading_file"
    "thread_running uploading_file" "2 \<noteq> pos uploading_file"
    by (simp_all add: uploading_file_def new_file_def)
  from nonsequential_write_drains [OF a, of quiet_env ftpfs_init "''/f''" "[9]"]
  have b: "ftpfs_write quiet_env ftpfs_init uploading_file ''/f'' [9] 2 =
     Returns (ftpfs_init, uploading_file\<lparr>eof := True, write_conn := False, thread_running := False\<rparr>, - 5)"
    by (simp add: quiet_env_def EIO_def uploading_file_def new_file_def)
  from nonsequential_write_drains [OF a, of "quiet_env\<lparr>worker_res := 55\<rparr>" ftpfs_init "''/f''" "[9]"]
  have c: "ftpfs_write (quiet_env\<lparr>worker_res := 55\<rparr>) ftpfs_init uploading_file ''/f'' [9] 2 =
     Returns (ftpfs_init, uploading_file\<lparr>eof := True, write_conn := False, thread_running := False,
                                          write_fail_cause := 55\<rparr>, - 5)"
    by (simp add: EIO_def)
  from a b c show ?thesis by (intro conjI) assumption+
qed

section \<open>The end of the worker\<close>

text \<open>
  A write of no bytes on a created file returns 0 and ends the worker.  The next write
  then waits for ever, unless its append fails; a flush still returns.
\<close>

lemma empty_handoff_ends_worker:
  "ftpfs_write quiet_env ftpfs_init created_file ''/f'' [] 0 =
     Returns (ftpfs_init, created_file\<lparr>thread_running := False, need_posted := True\<rparr>, 0) \<and>
   ftpfs_write quiet_env ftpfs_init (created_file\<lparr>thread_running := False, need_posted := True\<rparr>) ''/f'' [1] 0 =
     Blocks \<and>
   ftpfs_write (quiet_env\<lparr>alloc_ok := False\<rparr>) ftpfs_init (created_file\<lparr>thread_running := False, need_posted := True\<rparr>) ''/f'' [1] 0 =
     Returns (ftpfs_init, created_file\<lparr>thread_running := False, need_posted := True\<rparr>, - 12) \<and>
   ftpfs_flush (quiet_env\<lparr>getattr_res := Some 0\<rparr>) ftpfs_init (created_file\<lparr>thread_running := False, need_posted := True\<rparr>) ''/f'' =
     Returns (ftpfs_init\<lparr>conn_url := Some ''ftp://host/'', requests := [List_dir ''/f'']\<rparr>,
              created_file\<lparr>thread_running := False, need_posted := True, eof := True, write_conn := False\<rparr>, 0)"
  by (simp add: ftpfs_write_def write_start_first_def write_resume_def write_stream_def
      ftpfs_flush_def finish_write_thread_def ftpfs_getattr_def cancel_previous_multi_def
      cause_after_worker_def op_return_id Let_def buf_init_def
      created_file_def new_file_def quiet_env_def ftpfs_init_def ENOMEM_def)

text \<open>
  When the worker's transfer fails after it has taken two of three bytes, the third stays
  in the hand-off buffer.
\<close>

lemma failed_handoff_leaves_rest:
  "ftpfs_write (quiet_env\<lparr>worker_res := 55, worker_taken := 2\<rparr>) ftpfs_init created_file ''/f'' [1, 2, 3] 0 =
     Returns (ftpfs_init,
              created_file\<lparr>stream_buf := \<lparr>p = [3], begin_offset = 0\<rparr>, pos := 3, write_fail_cause := 55\<rparr>,
              - 5)"
  by (simp add: ftpfs_write_def write_start_first_def write_resume_def write_stream_def
      cause_after_worker_def op_return_id Let_def buf_init_def
      created_file_def new_file_def quiet_env_def EIO_def)

end
